theory Spec2Isabelle
  imports Complex_Main
begin

section \<open>Numbers of the particle filter\<close>

text \<open>
  The filter of \<^verbatim>\<open>src/particle_filter/particle_filter.cc\<close> computes in C++
  \<^verbatim>\<open>float\<close>. A value is modelled as a real number or one of the three special
  values of IEEE 754, with one zero. Operations that meet a special value, a division
  by zero or a square root of a negative number follow IEEE 754; comparisons with
  \<open>NaN\<close> are false, as in C++. The operators \<open>+\<close>, \<open>-\<close>, \<open>*\<close>, \<open>/\<close> below are exact on
  finite values. Where the rounding to single precision decides what the filter does,
  in the arithmetic of \<^verbatim>\<open>Resample\<close> and in the exponential, the result is rounded
  with \<open>round32\<close>, defined further down.
\<close>

datatype cfloat = Fin real | PInf | MInf | NaN

fun is_finite :: "cfloat \<Rightarrow> bool" where
  "is_finite (Fin r) = True"
| "is_finite PInf = False"
| "is_finite MInf = False"
| "is_finite NaN = False"

instantiation cfloat :: "{zero, plus, uminus, minus, times, inverse, ord}"
begin

definition zero_cfloat :: cfloat where
  "zero_cfloat = Fin 0"

fun plus_cfloat :: "cfloat \<Rightarrow> cfloat \<Rightarrow> cfloat" where
  "plus_cfloat NaN b = NaN"
| "plus_cfloat a NaN = NaN"
| "plus_cfloat (Fin a) (Fin b) = Fin (a + b)"
| "plus_cfloat PInf MInf = NaN"
| "plus_cfloat MInf PInf = NaN"
| "plus_cfloat PInf b = PInf"
| "plus_cfloat a PInf = PInf"
| "plus_cfloat MInf b = MInf"
| "plus_cfloat a MInf = MInf"

fun uminus_cfloat :: "cfloat \<Rightarrow> cfloat" where
  "uminus_cfloat (Fin a) = Fin (- a)"
| "uminus_cfloat PInf = MInf"
| "uminus_cfloat MInf = PInf"
| "uminus_cfloat NaN = NaN"

definition minus_cfloat :: "cfloat \<Rightarrow> cfloat \<Rightarrow> cfloat" where
  "minus_cfloat a b = a + (- b)"

fun times_cfloat :: "cfloat \<Rightarrow> cfloat \<Rightarrow> cfloat" where
  "times_cfloat NaN b = NaN"
| "times_cfloat a NaN = NaN"
| "times_cfloat (Fin a) (Fin b) = Fin (a * b)"
| "times_cfloat (Fin a) PInf = (if a = 0 then NaN else if 0 < a then PInf else MInf)"
| "times_cfloat (Fin a) MInf = (if a = 0 then NaN else if 0 < a then MInf else PInf)"
| "times_cfloat PInf (Fin b) = (if b = 0 then NaN else if 0 < b then PInf else MInf)"
| "times_cfloat MInf (Fin b) = (if b = 0 then NaN else if 0 < b then MInf else PInf)"
| "times_cfloat PInf PInf = PInf"
| "times_cfloat PInf MInf = MInf"
| "times_cfloat MInf PInf = MInf"
| "times_cfloat MInf MInf = PInf"

fun divide_cfloat :: "cfloat \<Rightarrow> cfloat \<Rightarrow> cfloat" where
  "divide_cfloat NaN b = NaN"
| "divide_cfloat a NaN = NaN"
| "divide_cfloat (Fin a) (Fin b) =
     (if b = 0 then (if a = 0 then NaN else if 0 < a then PInf else MInf)
      else Fin (a / b))"
| "divide_cfloat (Fin a) PInf = Fin 0"
| "divide_cfloat (Fin a) MInf = Fin 0"
| "divide_cfloat PInf (Fin b) = (if 0 \<le> b then PInf else MInf)"
| "divide_cfloat MInf (Fin b) = (if 0 \<le> b then MInf else PInf)"
| "divide_cfloat PInf b = NaN"
| "divide_cfloat MInf b = NaN"

fun inverse_cfloat :: "cfloat \<Rightarrow> cfloat" where
  "inverse_cfloat (Fin a) = (if a = 0 then PInf else Fin (1 / a))"
| "inverse_cfloat PInf = Fin 0"
| "inverse_cfloat MInf = Fin 0"
| "inverse_cfloat NaN = NaN"

fun less_cfloat :: "cfloat \<Rightarrow> cfloat \<Rightarrow> bool" where
  "less_cfloat NaN b = False"
| "less_cfloat a NaN = False"
| "less_cfloat (Fin a) (Fin b) = (a < b)"
| "less_cfloat (Fin a) PInf = True"
| "less_cfloat (Fin a) MInf = False"
| "less_cfloat PInf b = False"
| "less_cfloat MInf MInf = False"
| "less_cfloat MInf b = True"

definition less_eq_cfloat :: "cfloat \<Rightarrow> cfloat \<Rightarrow> bool" where
  "less_eq_cfloat a b = (a < b \<or> (a = b \<and> a \<noteq> NaN))"

instance ..

end

text \<open>The C++ operator \<^verbatim>\<open>==\<close>: \<open>NaN\<close> equals nothing, itself included.\<close>

definition feq :: "cfloat \<Rightarrow> cfloat \<Rightarrow> bool" where
  "feq a b = (a \<noteq> NaN \<and> a = b)"

subsection \<open>Rounding to single precision\<close>

text \<open>
  IEEE 754 binary32, round to nearest, ties to even. \<open>rne\<close> rounds a real to the nearest
  integer. A real \<open>x\<close> with \<open>2\<^sup>e \<le> |x| < 2\<^sup>e\<^sup>+\<^sup>1\<close> is rounded to a multiple of
  \<open>2\<^sup>e\<^sup>-\<^sup>2\<^sup>3\<close> (24 significant bits), with \<open>e\<close> not below \<open>- 126\<close> (subnormal
  numbers, and underflow to zero); a result of magnitude \<open>2\<^sup>1\<^sup>2\<^sup>8\<close> is an overflow to
  infinity. \<open>r32\<close> is what a \<^verbatim>\<open>float\<close> variable holds after it is assigned the exact
  result of one operation. \<open>round64\<close> and \<open>r64\<close> are the same for binary64, the
  \<^verbatim>\<open>double\<close> of C++: 53 significant bits, exponents from \<open>- 1022\<close>, overflow at
  \<open>2\<^sup>1\<^sup>0\<^sup>2\<^sup>4\<close>.
\<close>

definition rne :: "real \<Rightarrow> int" where
  "rne y =
     (let f = \<lfloor>y\<rfloor>
      in if y - of_int f < 1 / 2 then f
         else if 1 / 2 < y - of_int f then f + 1
         else if even f then f else f + 1)"

definition round32 :: "real \<Rightarrow> cfloat" where
  "round32 x =
     (if x = 0 then Fin 0
      else
        (let e = max \<lfloor>log 2 \<bar>x\<bar>\<rfloor> (- 126);
             q = 2 powr (of_int e - 23);
             r = of_int (rne (x / q)) * q
         in if 2 powr 128 \<le> \<bar>r\<bar> then (if 0 < x then PInf else MInf) else Fin r))"

fun r32 :: "cfloat \<Rightarrow> cfloat" where
  "r32 (Fin a) = round32 a"
| "r32 PInf = PInf"
| "r32 MInf = MInf"
| "r32 NaN = NaN"

definition round64 :: "real \<Rightarrow> cfloat" where
  "round64 x =
     (if x = 0 then Fin 0
      else
        (let e = max \<lfloor>log 2 \<bar>x\<bar>\<rfloor> (- 1022);
             q = 2 powr (of_int e - 52);
             r = of_int (rne (x / q)) * q
         in if 2 powr 1024 \<le> \<bar>r\<bar> then (if 0 < x then PInf else MInf) else Fin r))"

fun r64 :: "cfloat \<Rightarrow> cfloat" where
  "r64 (Fin a) = round64 a"
| "r64 PInf = PInf"
| "r64 MInf = MInf"
| "r64 NaN = NaN"

text \<open>The exponential, correctly rounded: it underflows to zero and overflows to infinity.\<close>

fun fexp :: "cfloat \<Rightarrow> cfloat" where
  "fexp (Fin a) = round32 (exp a)"
| "fexp PInf = PInf"
| "fexp MInf = Fin 0"
| "fexp NaN = NaN"

fun fsqrt :: "cfloat \<Rightarrow> cfloat" where
  "fsqrt (Fin a) = (if a < 0 then NaN else Fin (sqrt a))"
| "fsqrt PInf = PInf"
| "fsqrt MInf = NaN"
| "fsqrt NaN = NaN"

fun fcos :: "cfloat \<Rightarrow> cfloat" where
  "fcos (Fin a) = Fin (cos a)"
| "fcos PInf = NaN"
| "fcos MInf = NaN"
| "fcos NaN = NaN"

fun fsin :: "cfloat \<Rightarrow> cfloat" where
  "fsin (Fin a) = Fin (sin a)"
| "fsin PInf = NaN"
| "fsin MInf = NaN"
| "fsin NaN = NaN"

fun fabs :: "cfloat \<Rightarrow> cfloat" where
  "fabs (Fin a) = Fin \<bar>a\<bar>"
| "fabs PInf = PInf"
| "fabs MInf = PInf"
| "fabs NaN = NaN"

text \<open>
  \<^verbatim>\<open>std::min(a, b)\<close> is \<^verbatim>\<open>(b < a) ? b : a\<close> and \<^verbatim>\<open>std::max(a, b)\<close> is
  \<^verbatim>\<open>(a < b) ? b : a\<close>; \<^verbatim>\<open>Sq(x)\<close> of the shared math library is \<^verbatim>\<open>x * x\<close>.
\<close>

definition std_min :: "cfloat \<Rightarrow> cfloat \<Rightarrow> cfloat" where
  "std_min a b = (if b < a then b else a)"

definition std_max :: "cfloat \<Rightarrow> cfloat \<Rightarrow> cfloat" where
  "std_max a b = (if a < b then b else a)"

definition Sq :: "cfloat \<Rightarrow> cfloat" where
  "Sq a = a * a"

subsection \<open>Eigen's \<^verbatim>\<open>Vector2f\<close>\<close>

type_synonym Vector2f = "cfloat \<times> cfloat"

definition vadd :: "Vector2f \<Rightarrow> Vector2f \<Rightarrow> Vector2f" where
  "vadd u v = (fst u + fst v, snd u + snd v)"

definition vsub :: "Vector2f \<Rightarrow> Vector2f \<Rightarrow> Vector2f" where
  "vsub u v = (fst u - fst v, snd u - snd v)"

definition vscale :: "cfloat \<Rightarrow> Vector2f \<Rightarrow> Vector2f" where
  "vscale c v = (c * fst v, c * snd v)"

definition vdiv :: "Vector2f \<Rightarrow> cfloat \<Rightarrow> Vector2f" where
  "vdiv v c = (fst v / c, snd v / c)"

definition norm2f :: "Vector2f \<Rightarrow> cfloat" where
  "norm2f v = fsqrt (fst v * fst v + snd v * snd v)"

text \<open>\<^verbatim>\<open>Eigen::Rotation2Df(a) * v\<close>.\<close>

definition rotate2f :: "cfloat \<Rightarrow> Vector2f \<Rightarrow> Vector2f" where
  "rotate2f a v = (fcos a * fst v - fsin a * snd v, fsin a * fst v + fcos a * snd v)"

definition vmul :: "Vector2f \<Rightarrow> cfloat \<Rightarrow> Vector2f" where
  "vmul v c = (fst v * c, snd v * c)"

section \<open>Data model\<close>

text \<open>
  \<^verbatim>\<open>geometry::line2f\<close>, the \<^verbatim>\<open>Particle\<close> struct and the members of
  \<^verbatim>\<open>ParticleFilter\<close>, together with the two variables of the anonymous namespace
  (\<^verbatim>\<open>updates_since_last_resample_\<close>, \<^verbatim>\<open>last_update_loc_\<close>). Member names lose
  their trailing underscore; \<^verbatim>\<open>map_.lines\<close> is \<open>vector_map\<close>. The member
  \<^verbatim>\<open>rng_\<close> is the number of draws made so far.
\<close>

record line2f =
  p0 :: Vector2f
  p1 :: Vector2f

record Particle =
  loc :: Vector2f
  angle :: cfloat
  log_weight :: cfloat

record ParticleFilter =
  particles :: "Particle list"
  prev_odom_loc :: Vector2f
  prev_odom_angle :: cfloat
  odom_initialized :: bool
  vector_map :: "line2f list"
  rng :: nat
  var_obs :: cfloat
  d_short :: cfloat
  d_long :: cfloat
  max_log_particle_weight :: cfloat
  init_offset_angle :: cfloat
  updates_since_last_resample :: int
  last_update_loc :: Vector2f

text \<open>
  Code of other libraries that the filter calls, taken as parameters:
  \<^verbatim>\<open>line2f::Intersection\<close> (\<open>None\<close> when it returns false), \<^verbatim>\<open>math_util::AngleDiff\<close>,
  \<^verbatim>\<open>VectorMap::Load\<close>, and the two draws of \<^verbatim>\<open>util_random::Random\<close>: the
  value of the \<open>k\<close>-th draw of the generator, given the arguments of the call.
\<close>

record externals =
  Intersection :: "line2f \<Rightarrow> line2f \<Rightarrow> Vector2f option"
  AngleDiff :: "cfloat \<Rightarrow> cfloat \<Rightarrow> cfloat"
  Load :: "string \<Rightarrow> line2f list"
  Gaussian :: "nat \<Rightarrow> cfloat \<Rightarrow> cfloat \<Rightarrow> cfloat"
  UniformRandom :: "nat \<Rightarrow> cfloat \<Rightarrow> cfloat \<Rightarrow> cfloat"

text \<open>
  What C++ leaves undefined: an index past the end of a vector, an integer division by
  zero.
\<close>

datatype fault = IndexOutOfRange | DivisionByZero

text \<open>
  The constructor. It leaves \<^verbatim>\<open>max_log_particle_weight_\<close> and
  \<^verbatim>\<open>init_offset_angle_\<close> uninitialised: their values are the two arguments.
\<close>

definition ParticleFilter_ctor :: "cfloat \<Rightarrow> cfloat \<Rightarrow> ParticleFilter" where
  "ParticleFilter_ctor m a =
     \<lparr>particles = [], prev_odom_loc = (0, 0), prev_odom_angle = 0,
      odom_initialized = False, vector_map = [], rng = 0,
      var_obs = Fin 1, d_short = Fin 0.5, d_long = Fin 0.5,
      max_log_particle_weight = m, init_offset_angle = a,
      updates_since_last_resample = 0, last_update_loc = (0, 0)\<rparr>"

section \<open>The observation model\<close>

text \<open>\<^verbatim>\<open>loc + 0.2*Vector2f(cos(angle), sin(angle))\<close>, written out twice in the source.\<close>

definition lidar_loc :: "Vector2f \<Rightarrow> cfloat \<Rightarrow> Vector2f" where
  "lidar_loc l a = vadd l (vscale (Fin 0.2) (fcos a, fsin a))"

text \<open>
  The inner loop of \<^verbatim>\<open>GetPredictedPointCloud\<close> over the lines of the map; the
  pair is (\<^verbatim>\<open>dist_to_intersection_min\<close>, \<^verbatim>\<open>intersection_min\<close>).
\<close>

fun closest_intersection ::
  "externals \<Rightarrow> Vector2f \<Rightarrow> line2f \<Rightarrow> line2f list \<Rightarrow> cfloat \<times> Vector2f \<Rightarrow> cfloat \<times> Vector2f"
where
  "closest_intersection E l ray_line [] best = best"
| "closest_intersection E l ray_line (map_line # rest) (dist_to_intersection_min, intersection_min) =
     (case Intersection E map_line ray_line of
        None \<Rightarrow>
          closest_intersection E l ray_line rest (dist_to_intersection_min, intersection_min)
      | Some intersection_point \<Rightarrow>
          (let dist_to_this_intersection = norm2f (vsub intersection_point l)
           in if dist_to_this_intersection < dist_to_intersection_min
              then closest_intersection E l ray_line rest
                     (dist_to_this_intersection, intersection_point)
              else closest_intersection E l ray_line rest
                     (dist_to_intersection_min, intersection_min)))"

text \<open>The body of the outer loop: the value stored in \<^verbatim>\<open>scan[i_scan]\<close>.\<close>

definition ray_angle_of :: "cfloat \<Rightarrow> nat \<Rightarrow> cfloat \<Rightarrow> cfloat \<Rightarrow> nat \<Rightarrow> cfloat" where
  "ray_angle_of a num_ranges angle_min angle_max i_scan =
     a + Fin (10 * real i_scan / real num_ranges) * (angle_max - angle_min) + angle_min"

definition scan_point ::
  "externals \<Rightarrow> line2f list \<Rightarrow> Vector2f \<Rightarrow> cfloat \<Rightarrow> nat \<Rightarrow> cfloat \<Rightarrow> cfloat \<Rightarrow> cfloat \<Rightarrow> cfloat
     \<Rightarrow> nat \<Rightarrow> Vector2f"
where
  "scan_point E lines l a num_ranges range_min range_max angle_min angle_max i_scan =
     (let ll = lidar_loc l a;
          ray_angle = ray_angle_of a num_ranges angle_min angle_max i_scan;
          ray_line = \<lparr>p0 = (fst ll + range_min * fcos ray_angle, snd ll + range_min * fsin ray_angle),
                      p1 = (fst ll + range_max * fcos ray_angle, snd ll + range_max * fsin ray_angle)\<rparr>;
          intersection_min = (fst ll + range_max * fcos ray_angle, snd ll + range_max * fsin ray_angle);
          dist_to_intersection_min = range_max
      in snd (closest_intersection E l ray_line lines (dist_to_intersection_min, intersection_min)))"

definition GetPredictedPointCloud ::
  "externals \<Rightarrow> line2f list \<Rightarrow> Vector2f \<Rightarrow> cfloat \<Rightarrow> nat \<Rightarrow> cfloat \<Rightarrow> cfloat \<Rightarrow> cfloat \<Rightarrow> cfloat
     \<Rightarrow> Vector2f list"
where
  "GetPredictedPointCloud E lines l a num_ranges range_min range_max angle_min angle_max =
     map (scan_point E lines l a num_ranges range_min range_max angle_min angle_max)
       [0 ..< num_ranges div 10]"

text \<open>
  One pass of the second loop of \<^verbatim>\<open>Update\<close>: the value of \<^verbatim>\<open>log_error_sum\<close>
  after ray \<open>i\<close>. In \<^verbatim>\<open>Update\<close> itself, \<^verbatim>\<open>ranges.size() / predicted_cloud.size()\<close>
  divides by zero when the scan has fewer than ten ranges.
\<close>

definition ray_update ::
  "ParticleFilter \<Rightarrow> cfloat list \<Rightarrow> cfloat list \<Rightarrow> Vector2f list \<Rightarrow> Particle \<Rightarrow> cfloat \<Rightarrow> cfloat
     \<Rightarrow> cfloat \<Rightarrow> nat \<Rightarrow> cfloat"
where
  "ray_update s ranges trimmed_ranges predicted_cloud particle range_min range_max log_error_sum i =
     (let predicted_point = predicted_cloud ! i;
          particle_lidar_loc = lidar_loc (loc particle) (angle particle);
          predicted_range = norm2f (vsub predicted_point particle_lidar_loc)
      in if predicted_range > range_max \<or> predicted_range < range_min
            \<or> ranges ! i > Fin 0.95 * range_max \<or> ranges ! i < Fin 1.05 * range_min
         then log_error_sum
         else (let range_diff = trimmed_ranges ! i - predicted_range;
                   range_diff = std_min range_diff (d_long s);
                   range_diff = std_max range_diff (- d_short s)
               in log_error_sum + (- Sq range_diff) / var_obs s))"

definition Update ::
  "externals \<Rightarrow> cfloat list \<Rightarrow> cfloat \<Rightarrow> cfloat \<Rightarrow> cfloat \<Rightarrow> cfloat \<Rightarrow> ParticleFilter \<Rightarrow> Particle
     \<Rightarrow> fault + Particle"
where
  "Update E ranges range_min range_max angle_min angle_max s particle =
     (if \<not> odom_initialized s then Inr particle
      else
        (let predicted_cloud =
               GetPredictedPointCloud E (vector_map s) (loc particle) (angle particle)
                 (length ranges) range_min range_max angle_min angle_max
         in if length predicted_cloud = 0 then Inl DivisionByZero
            else
              (let ratio = length ranges div length predicted_cloud;
                   trimmed_ranges = map (\<lambda>i. ranges ! (ratio * i)) [0 ..< length predicted_cloud];
                   log_error_sum =
                     foldl (ray_update s ranges trimmed_ranges predicted_cloud particle
                              range_min range_max)
                       0 [0 ..< length predicted_cloud]
               in Inr (particle\<lparr>log_weight := log_weight particle + log_error_sum\<rparr>))))"

section \<open>Resampling\<close>

text \<open>
  \<^verbatim>\<open>FLAGS_num_particles\<close> is declared with \<^verbatim>\<open>DEFINE_double\<close>: the configured
  number of particles is the real number \<open>N\<close>. A loop
  \<^verbatim>\<open>for (size_t i=0; i < FLAGS_num_particles; i++)\<close> compares the index with it as a
  double, and \<^verbatim>\<open>vector<float> absolute_weight_breakpoints(FLAGS_num_particles)\<close>
  has \<open>\<lfloor>N\<rfloor>\<close> elements. The vector is static, and every element is written
  before it is read. Every assignment to a \<^verbatim>\<open>float\<close> in \<^verbatim>\<open>Resample\<close> rounds its
  value to single precision (\<open>r32\<close>). The quotient
  \<^verbatim>\<open>normalized_sum / FLAGS_num_particles\<close> of a float and a double is computed in
  double precision (\<open>r64\<close>) and then rounded to the float \<^verbatim>\<open>division_size\<close>.

  The first loop of \<^verbatim>\<open>Resample\<close>.
\<close>

function normalize_loop ::
  "real \<Rightarrow> cfloat \<Rightarrow> nat \<Rightarrow> Particle list \<Rightarrow> cfloat list \<Rightarrow> cfloat
     \<Rightarrow> fault + (Particle list \<times> cfloat list \<times> cfloat)"
where
  "normalize_loop N maxw i ps absolute_weight_breakpoints normalized_sum =
     (if real i < N then
        (if length ps \<le> i \<or> length absolute_weight_breakpoints \<le> i then Inl IndexOutOfRange
         else
           (let p = (ps ! i)\<lparr>log_weight := r32 (log_weight (ps ! i) - maxw)\<rparr>;
                normalized_sum = r32 (normalized_sum + fexp (log_weight p))
            in normalize_loop N maxw (Suc i) (ps[i := p])
                 (absolute_weight_breakpoints[i := normalized_sum]) normalized_sum))
      else Inr (ps, absolute_weight_breakpoints, normalized_sum))"
  by pat_completeness auto
termination
  by (relation "measure (\<lambda>(N, maxw, i, ps, bps, a). nat \<lceil>N\<rceil> - i)") (auto, linarith)

declare normalize_loop.simps [simp del]

text \<open>
  The \<^verbatim>\<open>while\<close> loop inside the second loop. Nothing in the loop itself bounds the
  number of passes (a step \<^verbatim>\<open>division_size\<close> that is not positive or that rounding
  absorbs, or a \<^verbatim>\<open>sample_point\<close> of minus infinity, never reach the breakpoint):
  \<open>None\<close> is a loop that does not end.
\<close>

partial_function (option) resample_while ::
  "cfloat \<Rightarrow> cfloat \<Rightarrow> Particle \<Rightarrow> Particle list \<Rightarrow> cfloat \<Rightarrow> (Particle list \<times> cfloat) option"
where
  "resample_while breakpoint division_size p new_particles sample_point =
     (if breakpoint > sample_point
      then resample_while breakpoint division_size p (new_particles @ [p])
             (r32 (sample_point + division_size))
      else Some (new_particles, sample_point))"

text \<open>
  The second loop. It runs over the same indices as the first, which has already
  read \<^verbatim>\<open>particles_[i]\<close> and written \<^verbatim>\<open>absolute_weight_breakpoints[i]\<close>
  for each of them.
\<close>

function resample_loop ::
  "real \<Rightarrow> Particle list \<Rightarrow> cfloat list \<Rightarrow> cfloat \<Rightarrow> nat \<Rightarrow> Particle list \<Rightarrow> cfloat
     \<Rightarrow> (Particle list \<times> cfloat) option"
where
  "resample_loop N ps absolute_weight_breakpoints division_size i new_particles sample_point =
     (if real i < N then
        (case resample_while (absolute_weight_breakpoints ! i) division_size (ps ! i)
                new_particles sample_point of
           None \<Rightarrow> None
         | Some (new_particles', sample_point') \<Rightarrow>
             resample_loop N ps absolute_weight_breakpoints division_size (Suc i)
               new_particles' sample_point')
      else Some (new_particles, sample_point))"
  by pat_completeness auto
termination
  by (relation "measure (\<lambda>(N, ps, bps, d, i, acc, sp). nat \<lceil>N\<rceil> - i)") (auto, linarith)

declare resample_loop.simps [simp del]

definition Resample :: "externals \<Rightarrow> real \<Rightarrow> ParticleFilter \<Rightarrow> (fault + ParticleFilter) option" where
  "Resample E N s =
     (if particles s = [] \<or> \<not> odom_initialized s then Some (Inr s)
      else
        (case normalize_loop N (max_log_particle_weight s) 0 (particles s)
                (replicate (nat \<lfloor>N\<rfloor>) 0) 0 of
           Inl e \<Rightarrow> Some (Inl e)
         | Inr (ps, absolute_weight_breakpoints, normalized_sum) \<Rightarrow>
             (let division_size = r32 (r64 (normalized_sum / Fin N));
                  sample_point = UniformRandom E (rng s) 0 division_size;
                  s1 = s\<lparr>particles := ps, rng := Suc (rng s)\<rparr>
              in if feq division_size 0 then Some (Inr s1)
                 else
                   (case resample_loop N ps absolute_weight_breakpoints division_size 0 []
                           sample_point of
                      None \<Rightarrow> None
                    | Some (new_particles, sample_point') \<Rightarrow>
                        Some (Inr (s1\<lparr>max_log_particle_weight := 0,
                                       particles := new_particles\<rparr>))))))"

section \<open>The sensor update\<close>

text \<open>
  The loop of \<^verbatim>\<open>ObserveLaser\<close> over the particles: each one is updated, and the
  running maximum \<^verbatim>\<open>max_log_particle_weight_\<close> follows.
\<close>

fun update_particles ::
  "externals \<Rightarrow> cfloat list \<Rightarrow> cfloat \<Rightarrow> cfloat \<Rightarrow> cfloat \<Rightarrow> cfloat \<Rightarrow> ParticleFilter
     \<Rightarrow> Particle list \<Rightarrow> cfloat \<Rightarrow> fault + (Particle list \<times> cfloat)"
where
  "update_particles E ranges range_min range_max angle_min angle_max s [] maxw = Inr ([], maxw)"
| "update_particles E ranges range_min range_max angle_min angle_max s (particle # rest) maxw =
     (case Update E ranges range_min range_max angle_min angle_max s particle of
        Inl e \<Rightarrow> Inl e
      | Inr particle' \<Rightarrow>
          (let maxw' = (if log_weight particle' > maxw then log_weight particle' else maxw)
           in case update_particles E ranges range_min range_max angle_min angle_max s rest maxw' of
                Inl e \<Rightarrow> Inl e
              | Inr (rest', maxw'') \<Rightarrow> Inr (particle' # rest', maxw'')))"

text \<open>Carrying on after a call that may fault or not return.\<close>

definition and_then ::
  "(fault + ParticleFilter) option \<Rightarrow> (ParticleFilter \<Rightarrow> ParticleFilter)
     \<Rightarrow> (fault + ParticleFilter) option"
where
  "and_then r f = (case r of None \<Rightarrow> None | Some (Inl e) \<Rightarrow> Some (Inl e) | Some (Inr s) \<Rightarrow> Some (Inr (f s)))"

text \<open>The distance that gates the sensor update.\<close>

definition dist_since_last_update :: "ParticleFilter \<Rightarrow> cfloat" where
  "dist_since_last_update s = norm2f (vsub (prev_odom_loc s) (last_update_loc s))"

definition ObserveLaser ::
  "externals \<Rightarrow> real \<Rightarrow> cfloat list \<Rightarrow> cfloat \<Rightarrow> cfloat \<Rightarrow> cfloat \<Rightarrow> cfloat \<Rightarrow> ParticleFilter
     \<Rightarrow> (fault + ParticleFilter) option"
where
  "ObserveLaser E N ranges range_min range_max angle_min angle_max s =
     (let s0 = s\<lparr>max_log_particle_weight := MInf\<rparr>;
          dist = dist_since_last_update s0
      in if dist > Fin 0.1 \<and> dist < Fin 1.0 then
           (case update_particles E ranges range_min range_max angle_min angle_max s0
                   (particles s0) (max_log_particle_weight s0) of
              Inl e \<Rightarrow> Some (Inl e)
            | Inr (ps, maxw) \<Rightarrow>
                (let s1 = s0\<lparr>particles := ps, max_log_particle_weight := maxw,
                              last_update_loc := prev_odom_loc s0\<rparr>
                 in and_then
                      (if updates_since_last_resample s1 > 5
                       then and_then (Resample E N s1) (\<lambda>s2. s2\<lparr>updates_since_last_resample := 0\<rparr>)
                       else Some (Inr s1))
                      (\<lambda>s3. s3\<lparr>updates_since_last_resample := updates_since_last_resample s3 + 1\<rparr>)))
         else Some (Inr s0))"

section \<open>The motion update\<close>

definition ResetOdomVariables :: "Vector2f \<Rightarrow> cfloat \<Rightarrow> ParticleFilter \<Rightarrow> ParticleFilter" where
  "ResetOdomVariables l a s =
     s\<lparr>init_offset_angle := a - prev_odom_angle s,
       last_update_loc := l,
       prev_odom_loc := l,
       prev_odom_angle := a,
       updates_since_last_resample := 0\<rparr>"

text \<open>
  The generator is threaded through: the result carries the number of draws made.
  \<^verbatim>\<open>abs(angle_diff)\<close> is read as the absolute value of the float.
\<close>

definition UpdateParticleLocation ::
  "externals \<Rightarrow> Vector2f \<Rightarrow> cfloat \<Rightarrow> nat \<Rightarrow> Particle \<Rightarrow> Particle \<times> nat"
where
  "UpdateParticleLocation E odom_trans_diff dtheta_odom r particle =
     (let k1 = Fin 0.50; k2 = Fin 0.25; k3 = Fin 0.50; k4 = Fin 0.75;
          angle_diff = dtheta_odom;
          translation_noise_x =
            Gaussian E r 0 (k1 * norm2f odom_trans_diff + k2 * fabs angle_diff);
          translation_noise_y =
            Gaussian E (r + 1) 0 (k1 * norm2f odom_trans_diff + k2 * fabs angle_diff);
          rotation_noise =
            Gaussian E (r + 2) 0 (k3 * norm2f odom_trans_diff + k4 * fabs angle_diff)
      in (particle\<lparr>loc := vadd (loc particle)
                             (vadd odom_trans_diff (translation_noise_x, translation_noise_y)),
                   angle := angle particle + (dtheta_odom + rotation_noise)\<rparr>,
          r + 3))"

fun propagate ::
  "externals \<Rightarrow> Vector2f \<Rightarrow> cfloat \<Rightarrow> cfloat \<Rightarrow> nat \<Rightarrow> Particle list \<Rightarrow> Particle list \<times> nat"
where
  "propagate E odom_trans_diff angle_diff prev_angle r [] = ([], r)"
| "propagate E odom_trans_diff angle_diff prev_angle r (particle # rest) =
     (let map_trans_diff = rotate2f (AngleDiff E (angle particle) prev_angle) odom_trans_diff;
          (particle', r') = UpdateParticleLocation E map_trans_diff angle_diff r particle;
          (rest', r'') = propagate E odom_trans_diff angle_diff prev_angle r' rest
      in (particle' # rest', r''))"

definition ObserveOdometry ::
  "externals \<Rightarrow> Vector2f \<Rightarrow> cfloat \<Rightarrow> ParticleFilter \<Rightarrow> ParticleFilter"
where
  "ObserveOdometry E odom_loc odom_angle s =
     (let odom_trans_diff = vsub odom_loc (prev_odom_loc s)
      in if odom_initialized s \<and> norm2f odom_trans_diff < Fin 1.0 then
           (let angle_diff = AngleDiff E odom_angle (prev_odom_angle s);
                (ps, r) = propagate E odom_trans_diff angle_diff (prev_odom_angle s) (rng s)
                            (particles s)
            in s\<lparr>particles := ps, rng := r,
                 prev_odom_loc := odom_loc, prev_odom_angle := odom_angle\<rparr>)
         else (ResetOdomVariables odom_loc odom_angle s)\<lparr>odom_initialized := True\<rparr>)"

section \<open>Initialisation and the pose estimate\<close>

function init_loop ::
  "externals \<Rightarrow> real \<Rightarrow> Vector2f \<Rightarrow> cfloat \<Rightarrow> nat \<Rightarrow> Particle list \<Rightarrow> nat \<Rightarrow> Particle list \<times> nat"
where
  "init_loop E N l a i ps r =
     (if real i < N then
        (let particle_init =
               \<lparr>loc = (Gaussian E r (fst l) (Fin 0.25), Gaussian E (r + 1) (snd l) (Fin 0.25)),
                angle = Gaussian E (r + 2) a (Fin (pi / 6)),
                log_weight = 0\<rparr>
         in init_loop E N l a (Suc i) (ps @ [particle_init]) (r + 3))
      else (ps, r))"
  by pat_completeness auto
termination
  by (relation "measure (\<lambda>(E, N, l, a, i, ps, r). nat \<lceil>N\<rceil> - i)") (auto, linarith)

declare init_loop.simps [simp del]

definition Initialize ::
  "externals \<Rightarrow> real \<Rightarrow> string \<Rightarrow> Vector2f \<Rightarrow> cfloat \<Rightarrow> ParticleFilter \<Rightarrow> ParticleFilter"
where
  "Initialize E N map_file l a s =
     (let s1 = s\<lparr>particles := [],
                 vector_map := Load E (''maps/'' @ map_file @ ''.txt''),
                 odom_initialized := False\<rparr>;
          s2 = ResetOdomVariables l a s1;
          (ps, r) = init_loop E N l a 0 (particles s2) (rng s2)
      in s2\<lparr>particles := ps, rng := r\<rparr>)"

text \<open>The weight that \<^verbatim>\<open>GetLocation\<close> gives a particle.\<close>

definition normalized_weight :: "cfloat \<Rightarrow> Particle \<Rightarrow> cfloat" where
  "normalized_weight maxw particle =
     (let normalized_log_weight = log_weight particle - maxw
      in fexp normalized_log_weight)"

definition location_step ::
  "cfloat \<Rightarrow> Vector2f \<times> cfloat \<times> cfloat \<Rightarrow> Particle \<Rightarrow> Vector2f \<times> cfloat \<times> cfloat"
where
  "location_step maxw acc particle =
     (case acc of (weighted_loc_sum, weighted_angle_sum, weight_sum) \<Rightarrow>
        (vadd weighted_loc_sum (vmul (loc particle) (normalized_weight maxw particle)),
         weighted_angle_sum + angle particle * normalized_weight maxw particle,
         weight_sum + normalized_weight maxw particle))"

definition GetLocation :: "ParticleFilter \<Rightarrow> Vector2f \<times> cfloat" where
  "GetLocation s =
     (case foldl (location_step (max_log_particle_weight s)) ((0, 0), 0, 0) (particles s) of
        (weighted_loc_sum, weighted_angle_sum, weight_sum) \<Rightarrow>
          (vdiv weighted_loc_sum weight_sum, weighted_angle_sum / weight_sum))"

section \<open>What the first loop of Resample computes\<close>

text \<open>
  The particle after \<^verbatim>\<open>particles_[i].log_weight -= max_log_particle_weight_\<close>, the
  exponential of its new log-weight, the running sums stored in
  \<^verbatim>\<open>absolute_weight_breakpoints\<close>, and the final \<^verbatim>\<open>normalized_sum\<close>: the total
  normalised weight \<open>S\<close>.
\<close>

definition normalize_particle :: "cfloat \<Rightarrow> Particle \<Rightarrow> Particle" where
  "normalize_particle maxw p = p\<lparr>log_weight := r32 (log_weight p - maxw)\<rparr>"

definition resample_weight :: "cfloat \<Rightarrow> Particle \<Rightarrow> cfloat" where
  "resample_weight maxw p = fexp (log_weight (normalize_particle maxw p))"

fun breakpoints_from :: "cfloat \<Rightarrow> cfloat list \<Rightarrow> cfloat list" where
  "breakpoints_from acc [] = []"
| "breakpoints_from acc (w # ws) = r32 (acc + w) # breakpoints_from (r32 (acc + w)) ws"

definition normalized_sum_of :: "cfloat \<Rightarrow> Particle list \<Rightarrow> cfloat" where
  "normalized_sum_of maxw ps = foldl (\<lambda>acc w. r32 (acc + w)) 0 (map (resample_weight maxw) ps)"

section \<open>Auxiliary notions for the pose estimate\<close>

text \<open>
  The three sums of \<^verbatim>\<open>GetLocation\<close> once a weight that is not finite has been
  added: no sum is finite, and the sum of the weights is plus infinity or \<open>NaN\<close>.
\<close>

definition poisoned :: "Vector2f \<times> cfloat \<times> cfloat \<Rightarrow> bool" where
  "poisoned acc \<longleftrightarrow>
     \<not> is_finite (fst (fst acc)) \<and> \<not> is_finite (snd (fst acc)) \<and> \<not> is_finite (fst (snd acc))
     \<and> (snd (snd acc) = PInf \<or> snd (snd acc) = NaN)"

section \<open>The sensor model, ray by ray\<close>

text \<open>
  \<open>clamp v lo hi\<close> is \<^verbatim>\<open>std::clamp\<close>. The predicted range of ray \<open>i\<close> is the
  distance from the laser origin of the particle to the \<open>i\<close>-th predicted point. A
  predicted and a measured range pass the band test when neither is outside the usable
  band: the measured range is not above \<open>0.95 \<cdot> range_max\<close> nor below
  \<open>1.05 \<cdot> range_min\<close>, the predicted range not above \<open>range_max\<close> nor below
  \<open>range_min\<close>. The contribution of a ray with a measured and a predicted range is
  \<open>- d\<^sup>2 / \<sigma>\<^sup>2\<close> for the clamped difference \<open>d\<close>.
\<close>

definition clamp :: "cfloat \<Rightarrow> cfloat \<Rightarrow> cfloat \<Rightarrow> cfloat" where
  "clamp v lo hi = (if v < lo then lo else if hi < v then hi else v)"

definition predicted_range_of ::
  "externals \<Rightarrow> ParticleFilter \<Rightarrow> Particle \<Rightarrow> nat \<Rightarrow> cfloat \<Rightarrow> cfloat \<Rightarrow> cfloat \<Rightarrow> cfloat
     \<Rightarrow> nat \<Rightarrow> cfloat"
where
  "predicted_range_of E s particle num_ranges range_min range_max angle_min angle_max i =
     norm2f (vsub (GetPredictedPointCloud E (vector_map s) (loc particle) (angle particle)
                     num_ranges range_min range_max angle_min angle_max ! i)
                  (lidar_loc (loc particle) (angle particle)))"

definition passes_band_test :: "cfloat \<Rightarrow> cfloat \<Rightarrow> cfloat \<Rightarrow> cfloat \<Rightarrow> bool" where
  "passes_band_test range_min range_max predicted measured \<longleftrightarrow>
     \<not> (predicted > range_max \<or> predicted < range_min
        \<or> measured > Fin 0.95 * range_max \<or> measured < Fin 1.05 * range_min)"

definition ray_contribution :: "ParticleFilter \<Rightarrow> cfloat \<Rightarrow> cfloat \<Rightarrow> cfloat" where
  "ray_contribution s measured predicted =
     (- Sq (clamp (measured - predicted) (- d_short s) (d_long s))) / var_obs s"

text \<open>
  The second loop of \<^verbatim>\<open>Update\<close> as claim C3 words it: the band test reads the
  subsampled measurement \<^verbatim>\<open>trimmed_ranges[i]\<close>, the one the residual uses. Nothing
  else differs from \<open>ray_update\<close> and \<open>Update\<close>.
\<close>

definition ray_update_lockstep ::
  "ParticleFilter \<Rightarrow> cfloat list \<Rightarrow> Vector2f list \<Rightarrow> Particle \<Rightarrow> cfloat \<Rightarrow> cfloat
     \<Rightarrow> cfloat \<Rightarrow> nat \<Rightarrow> cfloat"
where
  "ray_update_lockstep s trimmed_ranges predicted_cloud particle range_min range_max log_error_sum i =
     (let predicted_point = predicted_cloud ! i;
          particle_lidar_loc = lidar_loc (loc particle) (angle particle);
          predicted_range = norm2f (vsub predicted_point particle_lidar_loc)
      in if predicted_range > range_max \<or> predicted_range < range_min
            \<or> trimmed_ranges ! i > Fin 0.95 * range_max
            \<or> trimmed_ranges ! i < Fin 1.05 * range_min
         then log_error_sum
         else log_error_sum + ray_contribution s (trimmed_ranges ! i) predicted_range)"

definition Update_lockstep ::
  "externals \<Rightarrow> cfloat list \<Rightarrow> cfloat \<Rightarrow> cfloat \<Rightarrow> cfloat \<Rightarrow> cfloat \<Rightarrow> ParticleFilter \<Rightarrow> Particle
     \<Rightarrow> fault + Particle"
where
  "Update_lockstep E ranges range_min range_max angle_min angle_max s particle =
     (if \<not> odom_initialized s then Inr particle
      else
        (let predicted_cloud =
               GetPredictedPointCloud E (vector_map s) (loc particle) (angle particle)
                 (length ranges) range_min range_max angle_min angle_max
         in if length predicted_cloud = 0 then Inl DivisionByZero
            else
              (let ratio = length ranges div length predicted_cloud;
                   trimmed_ranges = map (\<lambda>i. ranges ! (ratio * i)) [0 ..< length predicted_cloud];
                   log_error_sum =
                     foldl (ray_update_lockstep s trimmed_ranges predicted_cloud particle
                              range_min range_max)
                       0 [0 ..< length predicted_cloud]
               in Inr (particle\<lparr>log_weight := log_weight particle + log_error_sum\<rparr>))))"

text \<open>
  Modelled from the spec: the increment of the log-weight in one call of
  \<^verbatim>\<open>Update\<close> as claim C7 words it, the sum, over the rays whose measured range
  \<^verbatim>\<open>ranges[stride * i]\<close> and predicted range pass the band test, of the
  contributions of these two ranges, with
  \<open>stride = ranges.size / M\<close> and \<open>M = \<lfloor>ranges.size / 10\<rfloor>\<close> rays.
\<close>

definition claimed_increment ::
  "externals \<Rightarrow> cfloat list \<Rightarrow> cfloat \<Rightarrow> cfloat \<Rightarrow> cfloat \<Rightarrow> cfloat \<Rightarrow> ParticleFilter \<Rightarrow> Particle
     \<Rightarrow> cfloat"
where
  "claimed_increment E ranges range_min range_max angle_min angle_max s particle =
     (let M = length ranges div 10;
          stride = length ranges div M;
          measured = (\<lambda>i. ranges ! (stride * i));
          predicted = predicted_range_of E s particle (length ranges) range_min range_max
                        angle_min angle_max
      in foldl (+) 0
           (map (\<lambda>i. ray_contribution s (measured i) (predicted i))
              (filter (\<lambda>i. passes_band_test range_min range_max (predicted i) (measured i))
                 [0 ..< M])))"

section \<open>Scenarios\<close>

text \<open>
  Stand-ins for the libraries in the scenarios below: a generator without noise (a
  Gaussian draw is its mean, a uniform draw its lower bound), the plain difference of
  two angles, and a map loader that finds no line.
\<close>

definition quiet :: externals where
  "quiet = \<lparr>Intersection = (\<lambda>map_line ray_line. None),
            AngleDiff = (\<lambda>a b. a - b),
            Load = (\<lambda>file. []),
            Gaussian = (\<lambda>k mean stddev. mean),
            UniformRandom = (\<lambda>k a b. a)\<rparr>"

text \<open>A particle at the origin, heading along the x axis, with log-weight 0.\<close>

definition origin_particle :: Particle where
  "origin_particle = \<lparr>loc = (0, 0), angle = 0, log_weight = 0\<rparr>"

text \<open>A freshly constructed filter that holds this one particle.\<close>

definition one_particle_filter :: ParticleFilter where
  "one_particle_filter = (ParticleFilter_ctor 0 0)\<lparr>particles := [origin_particle]\<rparr>"

text \<open>
  A particle of log-weight \<open>- 1000\<close> elsewhere. An initialised filter with twelve
  particles, the one of log-weight 0 and eleven of log-weight \<open>- 1000\<close>, and stored
  maximum 0. An initialised filter that holds the light particle only, with stored
  maximum 5.
\<close>

definition light_particle :: Particle where
  "light_particle = \<lparr>loc = (Fin 1, Fin 1), angle = 0, log_weight = Fin (- 1000)\<rparr>"

definition heavy_of_twelve :: ParticleFilter where
  "heavy_of_twelve =
     (ParticleFilter_ctor 0 0)\<lparr>particles := origin_particle # replicate 11 light_particle,
                               odom_initialized := True\<rparr>"


section \<open>Scenarios with a map\<close>

text \<open>
  Modelled from the spec: \<^verbatim>\<open>line2f::Intersection\<close> of the shared geometry library,
  which is not among the sources. The specification describes it as the parametric
  line--line intersection with the standard determinant test, with no hit on parallel
  or degenerate input. It is used in the scenarios only; the filter takes the
  intersection routine as a parameter.
\<close>

definition cross2f :: "Vector2f \<Rightarrow> Vector2f \<Rightarrow> cfloat" where
  "cross2f u v = fst u * snd v - snd u * fst v"

definition line_Intersection :: "line2f \<Rightarrow> line2f \<Rightarrow> Vector2f option" where
  "line_Intersection l1 l2 =
     (let d1 = vsub (p1 l1) (p0 l1);
          d2 = vsub (p1 l2) (p0 l2);
          det = cross2f d1 d2
      in if \<not> is_finite det \<or> feq det 0 then None
         else
           (let w = vsub (p0 l2) (p0 l1);
                t = cross2f w d2 / det;
                u = cross2f w d1 / det
            in if 0 \<le> t \<and> t \<le> Fin 1 \<and> 0 \<le> u \<and> u \<le> Fin 1
               then Some (vadd (p0 l1) (vscale t d1))
               else None))"

definition geometric :: externals where
  "geometric = quiet\<lparr>Intersection := line_Intersection\<rparr>"

text \<open>
  A wall across the x axis at abscissa \<open>x\<close>, and an initialised filter whose map is
  the wall at 5.2 m and whose only particle is at the origin.
\<close>

definition wall_at :: "real \<Rightarrow> line2f" where
  "wall_at x = \<lparr>p0 = (Fin x, Fin (- 1)), p1 = (Fin x, Fin 1)\<rparr>"

definition walled_filter :: ParticleFilter where
  "walled_filter =
     (ParticleFilter_ctor 0 0)\<lparr>particles := [origin_particle], odom_initialized := True,
                               vector_map := [wall_at 5.2]\<rparr>"

text \<open>
  A scan of twenty ranges, all 5.5 m except the second, which is far out of range. With
  twenty ranges there are two rays, and the measurements in lockstep with them are
  \<^verbatim>\<open>ranges[0]\<close> and \<^verbatim>\<open>ranges[10]\<close>.
\<close>

definition scan20 :: "cfloat list" where
  "scan20 = [Fin 5.5, Fin 100] @ replicate 18 (Fin 5.5)"

section \<open>A run of the filter\<close>

text \<open>
  The callbacks of the main program (not among the sources) hand each odometry message
  to \<open>ObserveOdometry\<close> and each scan to \<open>ObserveLaser\<close>, in the order of arrival.
\<close>

datatype event =
  Odometry Vector2f cfloat
| Laser "cfloat list" cfloat cfloat cfloat cfloat

fun run :: "externals \<Rightarrow> real \<Rightarrow> event list \<Rightarrow> ParticleFilter \<Rightarrow> (fault + ParticleFilter) option"
where
  "run E N [] s = Some (Inr s)"
| "run E N (Odometry odom_loc odom_angle # es) s =
     run E N es (ObserveOdometry E odom_loc odom_angle s)"
| "run E N (Laser ranges range_min range_max angle_min angle_max # es) s =
     (case ObserveLaser E N ranges range_min range_max angle_min angle_max s of
        Some (Inr s') \<Rightarrow> run E N es s'
      | r \<Rightarrow> r)"

text \<open>
  A first odometry message at the origin, then \<open>k\<close> rounds: the robot reports half a
  metre more along the x axis, and a scan of ten zero ranges arrives.
\<close>

definition blind_scan :: "cfloat list" where
  "blind_scan = replicate 10 (Fin 0)"

fun rounds :: "nat \<Rightarrow> event list" where
  "rounds 0 = [Odometry (0, 0) 0]"
| "rounds (Suc k) =
     rounds k @ [Odometry (Fin (real (Suc k) / 2), 0) 0, Laser blind_scan (Fin 1) (Fin 10) 0 0]"

text \<open>
  The state of that run between rounds: the particle and the odometry baseline at
  \<open>x\<close> on the x axis, the counter of updates since the last resampling \<open>c\<close>, \<open>r\<close> draws
  made, the stored maximum \<open>m\<close>.
\<close>

definition cruising :: "real \<Rightarrow> int \<Rightarrow> nat \<Rightarrow> cfloat \<Rightarrow> ParticleFilter" where
  "cruising x c r m =
     \<lparr>particles = [\<lparr>loc = (Fin x, Fin 0), angle = Fin 0, log_weight = Fin 0\<rparr>],
      prev_odom_loc = (Fin x, Fin 0), prev_odom_angle = Fin 0,
      odom_initialized = True, vector_map = [], rng = r,
      var_obs = Fin 1, d_short = Fin 0.5, d_long = Fin 0.5,
      max_log_particle_weight = m, init_offset_angle = Fin 0,
      updates_since_last_resample = c, last_update_loc = (Fin x, Fin 0)\<rparr>"

section \<open>Arithmetic of the special values\<close>

lemma sub_MInf: "x - MInf = PInf \<or> x - MInf = NaN"
  by (cases x) (simp_all add: minus_cfloat_def)

lemma add_inf_nan: "w = PInf \<or> w = NaN \<Longrightarrow> a + w = PInf \<or> a + w = NaN"
  by (cases a) auto

lemma mul_inf_nan: "w = PInf \<or> w = NaN \<Longrightarrow> \<not> is_finite (a * w)"
  by (cases a) (auto split: if_splits)

lemma add_nonfinite: "\<not> is_finite b \<Longrightarrow> \<not> is_finite (a + b)"
  by (cases a; cases b) auto

lemma div_nonfinite: "\<not> is_finite a \<Longrightarrow> w = PInf \<or> w = NaN \<Longrightarrow> a / w = NaN"
  by (cases a) auto

lemma norm2f_origin: "norm2f (vsub (0, 0) (0, 0)) = Fin 0"
  by (simp add: norm2f_def vsub_def zero_cfloat_def minus_cfloat_def)

section \<open>The gates\<close>

lemma ObserveLaser_gate_closed:
  assumes "\<not> (dist_since_last_update s > Fin 0.1 \<and> dist_since_last_update s < Fin 1.0)"
  shows "ObserveLaser E N ranges range_min range_max angle_min angle_max s =
           Some (Inr (s\<lparr>max_log_particle_weight := MInf\<rparr>))"
  using assms by (auto simp: ObserveLaser_def dist_since_last_update_def Let_def)

lemma ObserveOdometry_else:
  assumes "\<not> odom_initialized s \<or> norm2f (vsub odom_loc (prev_odom_loc s)) > Fin 1"
  shows "ObserveOdometry E odom_loc odom_angle s =
           (ResetOdomVariables odom_loc odom_angle s)\<lparr>odom_initialized := True\<rparr>"
proof -
  have "\<not> (odom_initialized s \<and> norm2f (vsub odom_loc (prev_odom_loc s)) < Fin 1.0)"
    using assms by (cases "norm2f (vsub odom_loc (prev_odom_loc s))") auto
  then show ?thesis by (auto simp: ObserveOdometry_def Let_def)
qed

lemma Initialize_not_odom_initialized: "\<not> odom_initialized (Initialize E N map_file l a s)"
  by (simp add: Initialize_def ResetOdomVariables_def Let_def split_beta)



text \<open>
  C6. A call of \<open>ObserveOdometry\<close> that is the first after \<open>Initialize\<close> (the
  odometry is not initialised), or that reports a translation of more than 1 m since
  the previous call, changes no particle and sets the stored odometry location and
  angle to the reported ones.
\<close>

theorem ObserveOdometry_rebaselines:
  assumes "s = Initialize E N map_file l a s0 \<or> \<not> odom_initialized s
           \<or> norm2f (vsub odom_loc (prev_odom_loc s)) > Fin 1"
  shows "particles (ObserveOdometry E odom_loc odom_angle s) = particles s
         \<and> prev_odom_loc (ObserveOdometry E odom_loc odom_angle s) = odom_loc
         \<and> prev_odom_angle (ObserveOdometry E odom_loc odom_angle s) = odom_angle"
proof -
  have "\<not> odom_initialized s \<or> norm2f (vsub odom_loc (prev_odom_loc s)) > Fin 1"
    using assms Initialize_not_odom_initialized by blast
  then show ?thesis
    by (simp add: ObserveOdometry_else ResetOdomVariables_def)
qed

theorem ObserveOdometry_rebaselines_witness:
  "Fin 1 < norm2f (vsub (Fin 5, 0) (prev_odom_loc (ObserveOdometry quiet (0, 0) 0 one_particle_filter)))
   \<and> particles (ObserveOdometry quiet (Fin 5, 0) 0 (ObserveOdometry quiet (0, 0) 0 one_particle_filter))
       = [origin_particle]
   \<and> prev_odom_loc (ObserveOdometry quiet (Fin 5, 0) 0 (ObserveOdometry quiet (0, 0) 0 one_particle_filter))
       = (Fin 5, 0)
   \<and> prev_odom_angle (ObserveOdometry quiet (Fin 5, 0) 0 (ObserveOdometry quiet (0, 0) 0 one_particle_filter))
       = 0"
proof -
  let ?s1 = "ObserveOdometry quiet (0, 0) 0 one_particle_filter"
  have s1: "?s1 = (ResetOdomVariables (0, 0) 0 one_particle_filter)\<lparr>odom_initialized := True\<rparr>"
    by (rule ObserveOdometry_else) (simp add: one_particle_filter_def ParticleFilter_ctor_def)
  have pl: "prev_odom_loc ?s1 = (0, 0)"
    by (simp add: s1 ResetOdomVariables_def)
  have far: "Fin 1 < norm2f (vsub (Fin 5, 0) (prev_odom_loc ?s1))"
    unfolding pl by (simp add: norm2f_def vsub_def zero_cfloat_def minus_cfloat_def)
  have p: "particles ?s1 = [origin_particle]"
    unfolding s1 by (simp add: ResetOdomVariables_def one_particle_filter_def)
  show ?thesis
    using far ObserveOdometry_rebaselines[of ?s1 quiet 1 "''m''" "(0, 0)" 0 one_particle_filter "(Fin 5, 0)" 0]
    by (simp add: p)
qed

section \<open>Rounding to single precision\<close>

lemma round32_eval:
  assumes "2 powr of_int e \<le> \<bar>x\<bar>" "\<bar>x\<bar> < 2 powr (of_int e + 1)" "- 126 \<le> e"
  shows "round32 x =
           (let q = 2 powr (of_int e - 23);
                r = of_int (rne (x / q)) * q
            in if 2 powr 128 \<le> \<bar>r\<bar> then (if 0 < x then PInf else MInf) else Fin r)"
proof -
  have pos: "0 < \<bar>x\<bar>"
    using assms(1) by (smt (verit) powr_gt_zero)
  then have nz: "x \<noteq> 0" by simp
  have "\<lfloor>log 2 \<bar>x\<bar>\<rfloor> = e"
    using floor_log_eq_powr_iff[of "\<bar>x\<bar>" 2 e] pos assms(1,2) by simp
  then have "max \<lfloor>log 2 \<bar>x\<bar>\<rfloor> (- 126) = e" using assms(3) by simp
  then show ?thesis using nz by (simp add: round32_def Let_def)
qed

lemma rne_small: "0 \<le> y \<Longrightarrow> y < 1 / 2 \<Longrightarrow> rne y = 0"
proof -
  assume a: "0 \<le> y" "y < 1 / 2"
  then have "\<lfloor>y\<rfloor> = 0" by (simp add: floor_eq_iff)
  then show ?thesis using a by (simp add: rne_def)
qed

lemma round32_tiny:
  assumes "0 < x" "x < 1 / 2 ^ 150"
  shows "round32 x = Fin 0"
proof -
  have lt: "x < 2 powr (- 126)"
  proof -
    have "(1::real) / 2 ^ 150 \<le> 1 / 2 ^ 126" by (simp add: field_simps)
    then show ?thesis using assms(2) by (simp add: powr_neg_numeral)
  qed
  have "log 2 x < - 126"
    using assms(1) lt by (simp add: log_less_iff)
  then have "\<lfloor>log 2 x\<rfloor> \<le> - 126" by linarith
  then have e: "max \<lfloor>log 2 \<bar>x\<bar>\<rfloor> (- 126) = - 126" using assms(1) by simp
  have q: "x / 2 powr (- 149) < 1 / 2"
    using assms(2) by (simp add: powr_neg_numeral field_simps)
  have "rne (x / 2 powr (- 149)) = 0"
    using assms(1) q by (intro rne_small) simp_all
  then show ?thesis
    using assms(1) e by (simp add: round32_def Let_def)
qed

lemma exp_underflow:
  fixes a :: real
  assumes "a \<le> - 151"
  shows "exp a < 1 / 2 ^ 150"
proof -
  have "(2::real) ^ 151 \<le> exp 1 ^ 151"
    using exp_ge_add_one_self[of 1] by (intro power_mono) simp_all
  also have "\<dots> = exp 151"
    using exp_of_nat_mult[of 151 "1::real"] by simp
  also have "\<dots> \<le> exp (- a)" using assms by simp
  finally have "2 ^ 151 \<le> exp (- a)" .
  then have "(2::real) ^ 150 < exp (- a)" by (smt (verit) power_strict_increasing_iff numeral_less_iff semiring_norm)
  then have "1 / exp (- a) < 1 / 2 ^ 150"
    by (intro divide_strict_left_mono) simp_all
  then show ?thesis by (simp add: exp_minus field_simps)
qed

lemma fexp_underflow: "a \<le> - 151 \<Longrightarrow> fexp (Fin a) = Fin 0"
  using round32_tiny[OF exp_gt_zero exp_underflow] by simp

lemma round32_one: "round32 1 = Fin 1"
  using round32_eval[of 0 1] by (simp add: rne_def powr_neg_numeral)

lemma fexp_zero: "fexp (Fin 0) = Fin 1"
  by (simp add: round32_one)

lemma round64_eval:
  assumes "2 powr of_int e \<le> \<bar>x\<bar>" "\<bar>x\<bar> < 2 powr (of_int e + 1)" "- 1022 \<le> e"
  shows "round64 x =
           (let q = 2 powr (of_int e - 52);
                r = of_int (rne (x / q)) * q
            in if 2 powr 1024 \<le> \<bar>r\<bar> then (if 0 < x then PInf else MInf) else Fin r)"
proof -
  have pos: "0 < \<bar>x\<bar>"
    using assms(1) by (smt (verit) powr_gt_zero)
  then have nz: "x \<noteq> 0" by simp
  have "\<lfloor>log 2 \<bar>x\<bar>\<rfloor> = e"
    using floor_log_eq_powr_iff[of "\<bar>x\<bar>" 2 e] pos assms(1,2) by simp
  then have "max \<lfloor>log 2 \<bar>x\<bar>\<rfloor> (- 1022) = e" using assms(3) by simp
  then show ?thesis using nz by (simp add: round64_def Let_def)
qed


lemma round64_one: "round64 1 = Fin 1"
  using round64_eval[of 0 1] by (simp add: rne_def powr_neg_numeral)

lemma round64_twelfth: "round64 (1 / 12) = Fin (6004799503160661 / 2 ^ 56)"
  using round64_eval[of "- 4" "1 / 12"] by (simp add: rne_def powr_neg_numeral Let_def)

lemma round32_twelfth: "round32 (6004799503160661 / 2 ^ 56) = Fin (11184811 / 2 ^ 27)"
  using round32_eval[of "- 4" "6004799503160661 / 2 ^ 56"]
  by (simp add: rne_def powr_neg_numeral Let_def)

lemma division_twelfth: "r32 (r64 (Fin 1 / Fin 12)) = Fin (11184811 / 2 ^ 27)"
  using round64_twelfth round32_twelfth by simp

lemma round32_m1000: "round32 (- 1000) = Fin (- 1000)"
  using round32_eval[of 9 "- 1000"] by (simp add: rne_def powr_neg_numeral Let_def)


section \<open>Resampling in single precision\<close>

text \<open>
  When the first loop ends without a fault, every index of the second loop is inside
  both vectors.
\<close>

lemma normalize_loop_indices:
  "normalize_loop N maxw i ps bps acc = Inr (ps', bps', acc') \<Longrightarrow>
   length ps' = length ps \<and> length bps' = length bps
   \<and> (\<forall>j. i \<le> j \<and> real j < N \<longrightarrow> j < length ps \<and> j < length bps)"
proof (induction N maxw i ps bps acc rule: normalize_loop.induct)
  case (1 N maxw i ps bps acc)
  show ?case
  proof (cases "real i < N")
    case False
    with "1.prems" show ?thesis
      by (subst (asm) normalize_loop.simps) (auto dest: order_le_less_trans[of "real i" _ N, rotated])
  next
    case True
    show ?thesis
    proof (cases "length ps \<le> i \<or> length bps \<le> i")
      case True
      with \<open>real i < N\<close> "1.prems" show ?thesis
        by (subst (asm) normalize_loop.simps) simp
    next
      case False
      let ?p = "(ps ! i)\<lparr>log_weight := r32 (log_weight (ps ! i) - maxw)\<rparr>"
      let ?a = "r32 (acc + fexp (log_weight ?p))"
      from "1.prems" True False
      have run: "normalize_loop N maxw (Suc i) (ps[i := ?p]) (bps[i := ?a]) ?a = Inr (ps', bps', acc')"
        by (subst (asm) normalize_loop.simps) (simp add: Let_def)
      from "1.IH"[OF True False refl refl run]
      have IH: "length ps' = length ps" "length bps' = length bps"
        "\<forall>j. Suc i \<le> j \<and> real j < N \<longrightarrow> j < length ps \<and> j < length bps"
        by simp_all
      show ?thesis
      proof (intro conjI allI impI)
        fix j assume j: "i \<le> j \<and> real j < N"
        show "j < length ps" using IH(3) j False by (cases "j = i") auto
        show "j < length bps" using IH(3) j False by (cases "j = i") auto
      qed (rule IH)+
    qed
  qed
qed

lemma normalize_loop_run:
  "n - i = k \<Longrightarrow> i \<le> n \<Longrightarrow> n \<le> length ps \<Longrightarrow> n \<le> length bps \<Longrightarrow>
   normalize_loop (real n) maxw i ps bps acc =
     Inr (take i ps @ map (normalize_particle maxw) (take k (drop i ps)) @ drop n ps,
          take i bps @ breakpoints_from acc (map (resample_weight maxw) (take k (drop i ps))) @ drop n bps,
          foldl (\<lambda>acc w. r32 (acc + w)) acc (map (resample_weight maxw) (take k (drop i ps))))"
proof (induction k arbitrary: i ps bps acc)
  case 0
  then have "i = n" by simp
  then show ?case by (subst normalize_loop.simps) simp
next
  case (Suc k)
  then have lt: "i < n" and il: "i < length ps" and ib: "i < length bps" by simp_all
  let ?p = "normalize_particle maxw (ps ! i)"
  let ?a = "r32 (acc + resample_weight maxw (ps ! i))"
  have step: "normalize_loop (real n) maxw i ps bps acc =
        normalize_loop (real n) maxw (Suc i) (ps[i := ?p]) (bps[i := ?a]) ?a"
    using lt il ib
    by (subst normalize_loop.simps)
       (simp add: Let_def normalize_particle_def resample_weight_def)
  have IH: "normalize_loop (real n) maxw (Suc i) (ps[i := ?p]) (bps[i := ?a]) ?a =
     Inr (take (Suc i) (ps[i := ?p]) @ map (normalize_particle maxw) (take k (drop (Suc i) (ps[i := ?p]))) @ drop n (ps[i := ?p]),
          take (Suc i) (bps[i := ?a]) @ breakpoints_from ?a (map (resample_weight maxw) (take k (drop (Suc i) (ps[i := ?p])))) @ drop n (bps[i := ?a]),
          foldl (\<lambda>acc w. r32 (acc + w)) ?a (map (resample_weight maxw) (take k (drop (Suc i) (ps[i := ?p])))))"
    using Suc.prems by (intro Suc.IH) simp_all
  have d1: "drop (Suc i) (ps[i := ?p]) = drop (Suc i) ps" by simp
  have d2: "drop n (ps[i := ?p]) = drop n ps" using lt by simp
  have d3: "drop n (bps[i := ?a]) = drop n bps" using lt by simp
  have t1: "take (Suc i) (ps[i := ?p]) = take i ps @ [?p]"
    using il by (simp add: take_Suc_conv_app_nth)
  have t2: "take (Suc i) (bps[i := ?a]) = take i bps @ [?a]"
    using ib by (simp add: take_Suc_conv_app_nth)
  have c: "take (Suc k) (drop i ps) = ps ! i # take k (drop (Suc i) ps)"
    using il by (simp add: Cons_nth_drop_Suc[symmetric])
  show ?case
    unfolding step IH d1 d2 d3 t1 t2 c by simp
qed

lemma normalize_loop_all:
  assumes "length ps = n"
  shows "normalize_loop (real n) maxw 0 ps (replicate n 0) 0 =
     Inr (map (normalize_particle maxw) ps,
          breakpoints_from 0 (map (resample_weight maxw) ps),
          normalized_sum_of maxw ps)"
  using normalize_loop_run[of n 0 n ps "replicate n 0" maxw 0] assms
  by (simp add: normalized_sum_of_def)

lemma resample_loop_settled:
  "n - i = k \<Longrightarrow> \<forall>j. i \<le> j \<and> j < n \<longrightarrow> \<not> bps ! j > sp \<Longrightarrow>
   resample_loop (real n) ps bps d i acc sp = Some (acc, sp)"
proof (induction k arbitrary: i)
  case 0
  then show ?case by (subst resample_loop.simps) simp
next
  case (Suc k)
  then have lt: "i < n" by simp
  with Suc.prems(2) have "\<not> bps ! i > sp" by simp
  then have w: "resample_while (bps ! i) d (ps ! i) acc sp = Some (acc, sp)"
    by (subst resample_while.simps) simp
  have "resample_loop (real n) ps bps d (Suc i) acc sp = Some (acc, sp)"
    using Suc.prems by (intro Suc.IH) simp_all
  then show ?case using lt w by (subst resample_loop.simps) simp
qed

text \<open>
  Thirteen additions of \<open>round32 (1 / 12)\<close>, each rounded to single precision, starting
  from 0: the twelfth sum is still below 1.
\<close>

lemma acc_step_1: "r32 (Fin (0 / 2 ^ 27) + Fin (11184811 / 2 ^ 27)) = Fin (11184811 / 2 ^ 27)"
  using round32_eval[of "- 4" "0 / 2 ^ 27 + 11184811 / 2 ^ 27"]
  by (simp add: rne_def powr_neg_numeral Let_def)

lemma acc_step_2: "r32 (Fin (11184811 / 2 ^ 27) + Fin (11184811 / 2 ^ 27)) = Fin (22369622 / 2 ^ 27)"
  using round32_eval[of "- 3" "11184811 / 2 ^ 27 + 11184811 / 2 ^ 27"]
  by (simp add: rne_def powr_neg_numeral Let_def)

lemma acc_step_3: "r32 (Fin (22369622 / 2 ^ 27) + Fin (11184811 / 2 ^ 27)) = Fin (33554432 / 2 ^ 27)"
  using round32_eval[of "- 2" "22369622 / 2 ^ 27 + 11184811 / 2 ^ 27"]
  by (simp add: rne_def powr_neg_numeral Let_def)

lemma acc_step_4: "r32 (Fin (33554432 / 2 ^ 27) + Fin (11184811 / 2 ^ 27)) = Fin (44739244 / 2 ^ 27)"
  using round32_eval[of "- 2" "33554432 / 2 ^ 27 + 11184811 / 2 ^ 27"]
  by (simp add: rne_def powr_neg_numeral Let_def)

lemma acc_step_5: "r32 (Fin (44739244 / 2 ^ 27) + Fin (11184811 / 2 ^ 27)) = Fin (55924056 / 2 ^ 27)"
  using round32_eval[of "- 2" "44739244 / 2 ^ 27 + 11184811 / 2 ^ 27"]
  by (simp add: rne_def powr_neg_numeral Let_def)

lemma acc_step_6: "r32 (Fin (55924056 / 2 ^ 27) + Fin (11184811 / 2 ^ 27)) = Fin (67108864 / 2 ^ 27)"
  using round32_eval[of "- 1" "55924056 / 2 ^ 27 + 11184811 / 2 ^ 27"]
  by (simp add: rne_def powr_neg_numeral Let_def)

lemma acc_step_7: "r32 (Fin (67108864 / 2 ^ 27) + Fin (11184811 / 2 ^ 27)) = Fin (78293672 / 2 ^ 27)"
  using round32_eval[of "- 1" "67108864 / 2 ^ 27 + 11184811 / 2 ^ 27"]
  by (simp add: rne_def powr_neg_numeral Let_def)

lemma acc_step_8: "r32 (Fin (78293672 / 2 ^ 27) + Fin (11184811 / 2 ^ 27)) = Fin (89478480 / 2 ^ 27)"
  using round32_eval[of "- 1" "78293672 / 2 ^ 27 + 11184811 / 2 ^ 27"]
  by (simp add: rne_def powr_neg_numeral Let_def)

lemma acc_step_9: "r32 (Fin (89478480 / 2 ^ 27) + Fin (11184811 / 2 ^ 27)) = Fin (100663288 / 2 ^ 27)"
  using round32_eval[of "- 1" "89478480 / 2 ^ 27 + 11184811 / 2 ^ 27"]
  by (simp add: rne_def powr_neg_numeral Let_def)

lemma acc_step_10: "r32 (Fin (100663288 / 2 ^ 27) + Fin (11184811 / 2 ^ 27)) = Fin (111848096 / 2 ^ 27)"
  using round32_eval[of "- 1" "100663288 / 2 ^ 27 + 11184811 / 2 ^ 27"]
  by (simp add: rne_def powr_neg_numeral Let_def)

lemma acc_step_11: "r32 (Fin (111848096 / 2 ^ 27) + Fin (11184811 / 2 ^ 27)) = Fin (123032904 / 2 ^ 27)"
  using round32_eval[of "- 1" "111848096 / 2 ^ 27 + 11184811 / 2 ^ 27"]
  by (simp add: rne_def powr_neg_numeral Let_def)

lemma acc_step_12: "r32 (Fin (123032904 / 2 ^ 27) + Fin (11184811 / 2 ^ 27)) = Fin (134217712 / 2 ^ 27)"
  using round32_eval[of "- 1" "123032904 / 2 ^ 27 + 11184811 / 2 ^ 27"]
  by (simp add: rne_def powr_neg_numeral Let_def)

lemma acc_step_13: "r32 (Fin (134217712 / 2 ^ 27) + Fin (11184811 / 2 ^ 27)) = Fin (145402528 / 2 ^ 27)"
  using round32_eval[of "0" "134217712 / 2 ^ 27 + 11184811 / 2 ^ 27"]
  by (simp add: rne_def powr_neg_numeral Let_def)


lemma thirteen_passes:
  "resample_while (Fin 1) (Fin (11184811 / 2 ^ 27)) p [] (Fin 0)
     = Some (replicate 13 p, Fin (145402528 / 2 ^ 27))"
proof -
  have w1: "resample_while (Fin 1) (Fin (11184811 / 2 ^ 27)) p acc0 (Fin (0 / 2 ^ 27)) = resample_while (Fin 1) (Fin (11184811 / 2 ^ 27)) p (acc0 @ [p]) (Fin (11184811 / 2 ^ 27))" for acc0
    by (subst resample_while.simps) (simp add: acc_step_1[simplified])
  have w2: "resample_while (Fin 1) (Fin (11184811 / 2 ^ 27)) p acc1 (Fin (11184811 / 2 ^ 27)) = resample_while (Fin 1) (Fin (11184811 / 2 ^ 27)) p (acc1 @ [p]) (Fin (22369622 / 2 ^ 27))" for acc1
    by (subst resample_while.simps) (simp add: acc_step_2[simplified])
  have w3: "resample_while (Fin 1) (Fin (11184811 / 2 ^ 27)) p acc2 (Fin (22369622 / 2 ^ 27)) = resample_while (Fin 1) (Fin (11184811 / 2 ^ 27)) p (acc2 @ [p]) (Fin (33554432 / 2 ^ 27))" for acc2
    by (subst resample_while.simps) (simp add: acc_step_3[simplified])
  have w4: "resample_while (Fin 1) (Fin (11184811 / 2 ^ 27)) p acc3 (Fin (33554432 / 2 ^ 27)) = resample_while (Fin 1) (Fin (11184811 / 2 ^ 27)) p (acc3 @ [p]) (Fin (44739244 / 2 ^ 27))" for acc3
    by (subst resample_while.simps) (simp add: acc_step_4[simplified])
  have w5: "resample_while (Fin 1) (Fin (11184811 / 2 ^ 27)) p acc4 (Fin (44739244 / 2 ^ 27)) = resample_while (Fin 1) (Fin (11184811 / 2 ^ 27)) p (acc4 @ [p]) (Fin (55924056 / 2 ^ 27))" for acc4
    by (subst resample_while.simps) (simp add: acc_step_5[simplified])
  have w6: "resample_while (Fin 1) (Fin (11184811 / 2 ^ 27)) p acc5 (Fin (55924056 / 2 ^ 27)) = resample_while (Fin 1) (Fin (11184811 / 2 ^ 27)) p (acc5 @ [p]) (Fin (67108864 / 2 ^ 27))" for acc5
    by (subst resample_while.simps) (simp add: acc_step_6[simplified])
  have w7: "resample_while (Fin 1) (Fin (11184811 / 2 ^ 27)) p acc6 (Fin (67108864 / 2 ^ 27)) = resample_while (Fin 1) (Fin (11184811 / 2 ^ 27)) p (acc6 @ [p]) (Fin (78293672 / 2 ^ 27))" for acc6
    by (subst resample_while.simps) (simp add: acc_step_7[simplified])
  have w8: "resample_while (Fin 1) (Fin (11184811 / 2 ^ 27)) p acc7 (Fin (78293672 / 2 ^ 27)) = resample_while (Fin 1) (Fin (11184811 / 2 ^ 27)) p (acc7 @ [p]) (Fin (89478480 / 2 ^ 27))" for acc7
    by (subst resample_while.simps) (simp add: acc_step_8[simplified])
  have w9: "resample_while (Fin 1) (Fin (11184811 / 2 ^ 27)) p acc8 (Fin (89478480 / 2 ^ 27)) = resample_while (Fin 1) (Fin (11184811 / 2 ^ 27)) p (acc8 @ [p]) (Fin (100663288 / 2 ^ 27))" for acc8
    by (subst resample_while.simps) (simp add: acc_step_9[simplified])
  have w10: "resample_while (Fin 1) (Fin (11184811 / 2 ^ 27)) p acc9 (Fin (100663288 / 2 ^ 27)) = resample_while (Fin 1) (Fin (11184811 / 2 ^ 27)) p (acc9 @ [p]) (Fin (111848096 / 2 ^ 27))" for acc9
    by (subst resample_while.simps) (simp add: acc_step_10[simplified])
  have w11: "resample_while (Fin 1) (Fin (11184811 / 2 ^ 27)) p acc10 (Fin (111848096 / 2 ^ 27)) = resample_while (Fin 1) (Fin (11184811 / 2 ^ 27)) p (acc10 @ [p]) (Fin (123032904 / 2 ^ 27))" for acc10
    by (subst resample_while.simps) (simp add: acc_step_11[simplified])
  have w12: "resample_while (Fin 1) (Fin (11184811 / 2 ^ 27)) p acc11 (Fin (123032904 / 2 ^ 27)) = resample_while (Fin 1) (Fin (11184811 / 2 ^ 27)) p (acc11 @ [p]) (Fin (134217712 / 2 ^ 27))" for acc11
    by (subst resample_while.simps) (simp add: acc_step_12[simplified])
  have w13: "resample_while (Fin 1) (Fin (11184811 / 2 ^ 27)) p acc12 (Fin (134217712 / 2 ^ 27)) = resample_while (Fin 1) (Fin (11184811 / 2 ^ 27)) p (acc12 @ [p]) (Fin (145402528 / 2 ^ 27))" for acc12
    by (subst resample_while.simps) (simp add: acc_step_13[simplified])
  have last: "resample_while (Fin 1) (Fin (11184811 / 2 ^ 27)) p acc (Fin (145402528 / 2 ^ 27)) = Some (acc, Fin (145402528 / 2 ^ 27))" for acc
    by (subst resample_while.simps) simp
  have r: "replicate 13 p = [] @ [p] @ [p] @ [p] @ [p] @ [p] @ [p] @ [p] @ [p] @ [p] @ [p] @ [p] @ [p] @ [p]"
    by (simp add: eval_nat_numeral)
  show ?thesis
    using w1[of "[]"] by (simp only: r append_assoc[symmetric] append_Nil w2 w3 w4 w5 w6 w7 w8 w9 w10 w11 w12 w13 last) simp
qed

lemma round32_zero: "round32 0 = Fin 0"
  by (simp add: round32_def)

lemma normalize_origin: "normalize_particle 0 origin_particle = origin_particle"
  by (simp add: normalize_particle_def origin_particle_def zero_cfloat_def minus_cfloat_def
        round32_zero)

lemma normalize_light: "normalize_particle 0 light_particle = light_particle"
  by (simp add: normalize_particle_def light_particle_def zero_cfloat_def minus_cfloat_def
        round32_m1000)

lemma weight_origin: "resample_weight 0 origin_particle = Fin 1"
  unfolding resample_weight_def normalize_origin
  by (simp add: origin_particle_def zero_cfloat_def round32_one)

lemma weight_light: "resample_weight 0 light_particle = Fin 0"
  unfolding resample_weight_def normalize_light
  using fexp_underflow[of "- 1000"] by (simp add: light_particle_def)

lemma zero_plus: "(0::cfloat) + Fin a = Fin a"
  by (simp add: zero_cfloat_def)

lemma breakpoints_flat: "breakpoints_from (Fin 1) (replicate k (Fin 0)) = replicate k (Fin 1)"
  by (induction k) (simp_all add: round32_one)

lemma sum_flat: "foldl (\<lambda>acc w. r32 (acc + w)) (Fin 1) (replicate k (Fin 0)) = Fin 1"
  by (induction k) (simp_all add: round32_one)

lemma twelve_facts:
  "particles heavy_of_twelve = origin_particle # replicate 11 light_particle"
  "length (particles heavy_of_twelve) = 12"
  "max_log_particle_weight heavy_of_twelve = 0"
  "odom_initialized heavy_of_twelve"
  "rng heavy_of_twelve = 0"
  by (simp_all add: heavy_of_twelve_def ParticleFilter_ctor_def)

lemma twelve_sum:
  "normalized_sum_of (max_log_particle_weight heavy_of_twelve) (particles heavy_of_twelve) = Fin 1"
  by (simp add: twelve_facts normalized_sum_of_def weight_origin weight_light zero_plus
        round32_one sum_flat)

lemma twelve_normalized:
  "normalize_loop 12 0 0 (particles heavy_of_twelve) (replicate 12 0) 0
     = Inr (particles heavy_of_twelve, replicate 12 (Fin 1), Fin 1)"
proof -
  have n: "normalize_loop (real 12) 0 0 (particles heavy_of_twelve) (replicate 12 0) 0 =
     Inr (map (normalize_particle 0) (particles heavy_of_twelve),
          breakpoints_from 0 (map (resample_weight 0) (particles heavy_of_twelve)),
          normalized_sum_of 0 (particles heavy_of_twelve))"
    by (rule normalize_loop_all) (simp add: twelve_facts)
  have b: "breakpoints_from 0 (map (resample_weight 0) (particles heavy_of_twelve))
             = replicate 12 (Fin 1)"
  proof -
    have "breakpoints_from 0 (map (resample_weight 0) (particles heavy_of_twelve))
            = Fin 1 # breakpoints_from (Fin 1) (replicate 11 (Fin 0))"
      by (simp add: twelve_facts weight_origin weight_light zero_plus round32_one)
    also have "\<dots> = Fin 1 # replicate 11 (Fin 1)" by (simp only: breakpoints_flat)
    also have "\<dots> = replicate 12 (Fin 1)" by (simp add: eval_nat_numeral)
    finally show ?thesis .
  qed
  have p: "map (normalize_particle 0) (particles heavy_of_twelve) = particles heavy_of_twelve"
    by (simp add: twelve_facts normalize_origin normalize_light)
  have n': "normalize_loop 12 0 0 (particles heavy_of_twelve) (replicate 12 0) 0 =
     Inr (map (normalize_particle 0) (particles heavy_of_twelve),
          breakpoints_from 0 (map (resample_weight 0) (particles heavy_of_twelve)),
          normalized_sum_of 0 (particles heavy_of_twelve))"
    using n by simp
  show ?thesis
    unfolding n' b p twelve_sum[unfolded twelve_facts(3)] by (rule refl)
qed

lemma twelve_resampled:
  "resample_loop 12 (particles heavy_of_twelve) (replicate 12 (Fin 1)) (Fin (11184811 / 2 ^ 27))
     0 [] (Fin 0)
   = Some (replicate 13 origin_particle, Fin (145402528 / 2 ^ 27))"
proof -
  have rest: "resample_loop (real 12) (particles heavy_of_twelve) (replicate 12 (Fin 1))
                (Fin (11184811 / 2 ^ 27)) (Suc 0) (replicate 13 origin_particle)
                (Fin (145402528 / 2 ^ 27))
              = Some (replicate 13 origin_particle, Fin (145402528 / 2 ^ 27))"
    by (rule resample_loop_settled[of 12 "Suc 0" 11]) simp_all
  show ?thesis
    by (subst resample_loop.simps)
       (use rest in \<open>simp add: twelve_facts thirteen_passes[simplified]\<close>)
qed

text \<open>
  C1. A particle set of the configured size \<open>N = 12\<close>, one particle of log-weight 0
  and eleven of log-weight \<open>- 1000\<close> with stored maximum 0, has total normalised weight
  \<open>S = 1\<close>; the uniform draw \<open>u = 0\<close> lies in \<open>[0, S/N)\<close>. \<open>Resample\<close> returns with
  thirteen particles: the sums \<^verbatim>\<open>sample_point += division_size\<close> are rounded to
  single precision, and the twelfth is \<open>1 - 2\<^sup>-\<^sup>2\<^sup>3\<close>, below the breakpoint 1.
\<close>

theorem Resample_emits_thirteen_of_twelve:
  "length (particles heavy_of_twelve) = 12
   \<and> normalized_sum_of (max_log_particle_weight heavy_of_twelve) (particles heavy_of_twelve) = Fin 1
   \<and> UniformRandom quiet (rng heavy_of_twelve) 0 (r32 (r64 (Fin 1 / Fin 12))) = Fin 0
   \<and> Resample quiet 12 heavy_of_twelve
       = Some (Inr (heavy_of_twelve\<lparr>rng := 1, max_log_particle_weight := 0,
                                     particles := replicate 13 origin_particle\<rparr>))"
proof -
  have u: "UniformRandom quiet (rng heavy_of_twelve) 0 (r32 (r64 (Fin 1 / Fin 12))) = Fin 0"
    by (simp add: quiet_def zero_cfloat_def)
  have d: "r32 (r64 (Fin 1 / Fin 12)) = Fin (11184811 / 2 ^ 27)"
    by (rule division_twelfth)
  have nz: "\<not> feq (Fin (11184811 / 2 ^ 27)) 0" by (simp add: feq_def zero_cfloat_def)
  have ne: "particles heavy_of_twelve \<noteq> []" by (simp add: twelve_facts)
  have "Resample quiet 12 heavy_of_twelve
       = Some (Inr (heavy_of_twelve\<lparr>rng := 1, max_log_particle_weight := 0,
                                     particles := replicate 13 origin_particle\<rparr>))"
    unfolding Resample_def
    using ne twelve_facts(4) nz
    by (simp add: twelve_facts(3,5) twelve_normalized d[simplified]
          u[unfolded twelve_facts(5) d, simplified] twelve_resampled[simplified] Let_def)
  then show ?thesis using u twelve_sum twelve_facts(2) by simp
qed

section \<open>The early return of Resample\<close>






section \<open>The pose estimate on weights that are not finite\<close>

lemma normalized_weight_MInf:
  "normalized_weight MInf p = PInf \<or> normalized_weight MInf p = NaN"
  using sub_MInf[of "log_weight p"] by (auto simp: normalized_weight_def)

lemma normalized_weight_MInf_not_finite: "\<not> is_finite (normalized_weight MInf p)"
  using normalized_weight_MInf[of p] by auto

lemma location_step_poisoned: "poisoned (location_step MInf acc p)"
proof -
  obtain lx ly a w where acc: "acc = ((lx, ly), a, w)" by (metis prod.collapse)
  note nw = normalized_weight_MInf[of p]
  show ?thesis
    unfolding acc poisoned_def location_step_def vadd_def vmul_def
    using add_nonfinite[OF mul_inf_nan[OF nw]] add_inf_nan[OF nw]
    by simp
qed

lemma location_fold_poisoned:
  "ps \<noteq> [] \<Longrightarrow> poisoned (foldl (location_step MInf) acc ps)"
  by (induction ps rule: rev_induct) (simp_all add: location_step_poisoned)

lemma GetLocation_empty: "particles s = [] \<Longrightarrow> GetLocation s = ((NaN, NaN), NaN)"
  by (simp add: GetLocation_def vdiv_def zero_cfloat_def)

lemma GetLocation_MInf:
  assumes "max_log_particle_weight s = MInf"
  shows "GetLocation s = ((NaN, NaN), NaN)"
proof (cases "particles s = []")
  case True
  then show ?thesis by (rule GetLocation_empty)
next
  case False
  obtain lx ly a w where f: "foldl (location_step MInf) ((0, 0), 0, 0) (particles s) = ((lx, ly), a, w)"
    by (metis prod.collapse)
  from location_fold_poisoned[OF False, of "((0, 0), 0, 0)"] f
  have p: "\<not> is_finite lx" "\<not> is_finite ly" "\<not> is_finite a" "w = PInf \<or> w = NaN"
    by (simp_all add: poisoned_def)
  show ?thesis
    using f assms div_nonfinite[OF p(1) p(4)] div_nonfinite[OF p(2) p(4)] div_nonfinite[OF p(3) p(4)]
    by (simp add: GetLocation_def vdiv_def)
qed

text \<open>
  C9. \<open>ObserveLaser\<close> overwrites the stored maximum log-weight with minus infinity
  before anything else: its result does not depend on the value stored before. When
  the distance moved is not strictly between 0.1 m and 1.0 m, the call returns with the
  stored maximum still minus infinity; then no normalised weight computed by
  \<open>GetLocation\<close> is finite, and the estimate it returns is \<open>NaN\<close> in every
  component.
\<close>

theorem ObserveLaser_closed_gate_leaves_minus_infinity:
  shows "ObserveLaser E N ranges range_min range_max angle_min angle_max
           (s\<lparr>max_log_particle_weight := m\<rparr>)
         = ObserveLaser E N ranges range_min range_max angle_min angle_max s
       \<and> (\<not> (dist_since_last_update s > Fin 0.1 \<and> dist_since_last_update s < Fin 1.0) \<longrightarrow>
            (\<exists>s'. ObserveLaser E N ranges range_min range_max angle_min angle_max s = Some (Inr s')
               \<and> max_log_particle_weight s' = MInf
               \<and> (\<forall>p\<in>set (particles s').
                     \<not> is_finite (normalized_weight (max_log_particle_weight s') p))
               \<and> GetLocation s' = ((NaN, NaN), NaN)))"
proof
  show "ObserveLaser E N ranges range_min range_max angle_min angle_max
           (s\<lparr>max_log_particle_weight := m\<rparr>)
         = ObserveLaser E N ranges range_min range_max angle_min angle_max s"
    by (simp add: ObserveLaser_def dist_since_last_update_def)
next
  show "\<not> (dist_since_last_update s > Fin 0.1 \<and> dist_since_last_update s < Fin 1.0) \<longrightarrow>
            (\<exists>s'. ObserveLaser E N ranges range_min range_max angle_min angle_max s = Some (Inr s')
               \<and> max_log_particle_weight s' = MInf
               \<and> (\<forall>p\<in>set (particles s').
                     \<not> is_finite (normalized_weight (max_log_particle_weight s') p))
               \<and> GetLocation s' = ((NaN, NaN), NaN))"
  proof
    assume g: "\<not> (dist_since_last_update s > Fin 0.1 \<and> dist_since_last_update s < Fin 1.0)"
    show "\<exists>s'. ObserveLaser E N ranges range_min range_max angle_min angle_max s = Some (Inr s')
               \<and> max_log_particle_weight s' = MInf
               \<and> (\<forall>p\<in>set (particles s').
                     \<not> is_finite (normalized_weight (max_log_particle_weight s') p))
               \<and> GetLocation s' = ((NaN, NaN), NaN)"
      using ObserveLaser_gate_closed[OF g, of E N ranges range_min range_max angle_min angle_max]
        GetLocation_MInf[of "s\<lparr>max_log_particle_weight := MInf\<rparr>"]
      by (simp add: normalized_weight_MInf_not_finite)
  qed
qed

theorem ObserveLaser_closed_gate_leaves_minus_infinity_witness:
  "\<not> (dist_since_last_update one_particle_filter > Fin 0.1
        \<and> dist_since_last_update one_particle_filter < Fin 1.0)
   \<and> (\<exists>s'. ObserveLaser quiet 1 [] (Fin 0.02) (Fin 10) (Fin (-2)) (Fin 2) one_particle_filter
              = Some (Inr s')
          \<and> max_log_particle_weight s' = MInf
          \<and> (\<forall>p\<in>set (particles s'). \<not> is_finite (normalized_weight (max_log_particle_weight s') p))
          \<and> GetLocation s' = ((NaN, NaN), NaN))"
proof -
  have d: "dist_since_last_update one_particle_filter = Fin 0"
    by (simp add: dist_since_last_update_def one_particle_filter_def ParticleFilter_ctor_def
          norm2f_origin)
  have g: "\<not> (dist_since_last_update one_particle_filter > Fin 0.1
               \<and> dist_since_last_update one_particle_filter < Fin 1.0)"
    by (simp add: d)
  show ?thesis
    using g ObserveLaser_closed_gate_leaves_minus_infinity[where E = quiet and N = 1
              and ranges = "[]" and range_min = "Fin 0.02" and range_max = "Fin 10"
              and angle_min = "Fin (-2)" and angle_max = "Fin 2" and s = one_particle_filter
              and m = 0]
    by blast
qed

text \<open>
  C8. On a freshly constructed filter, which holds no particle, \<open>GetLocation\<close>
  divides the zero sums by the zero sum of the weights: the estimate is \<open>NaN\<close> in
  every component.
\<close>

theorem GetLocation_of_no_particles:
  "GetLocation (ParticleFilter_ctor m a) = ((NaN, NaN), NaN)"
  by (simp add: GetLocation_empty ParticleFilter_ctor_def)

section \<open>The weight update\<close>

text \<open>With fewer than ten ranges there is no ray, and the stride is a division by zero.\<close>

lemma Update_too_few_ranges:
  assumes "odom_initialized s" "length ranges < 10"
  shows "Update E ranges range_min range_max angle_min angle_max s particle = Inl DivisionByZero"
  using assms by (simp add: Update_def GetPredictedPointCloud_def)

lemma std_clamp:
  assumes "\<not> hi < lo"
  shows "std_max (std_min v hi) lo = clamp v lo hi"
  using assms
  by (cases v; cases lo; cases hi) (auto simp: std_max_def std_min_def clamp_def)

lemma stride_index_in_range:
  assumes "i < length ranges div 10"
  shows "length ranges div (length ranges div 10) * i < length (ranges :: cfloat list)"
    and "i < length ranges"
proof -
  let ?n = "length ranges" and ?M = "length ranges div 10"
  have M: "0 < ?M" using assms by simp
  have "?n div ?M * i < ?n div ?M * ?M"
  proof -
    have "0 < ?n div ?M" using M by (simp add: div_greater_zero_iff)
    then show ?thesis using assms by simp
  qed
  also have "\<dots> \<le> ?n" by simp
  finally show "?n div ?M * i < ?n" .
  show "i < ?n" using assms by simp
qed

lemma foldl_filtered_sum:
  assumes "\<And>acc i. i \<in> set js \<Longrightarrow> f acc i = (if P i then acc + g i else acc)"
  shows "foldl f a js = foldl (+) a (map g (filter P js))"
  using assms by (induction js arbitrary: a) simp_all

lemma ray_update_eq:
  assumes "i < length predicted_cloud" "\<not> d_long s < - d_short s"
    and "trimmed_ranges = map (\<lambda>i. ranges ! (ratio * i)) [0 ..< length predicted_cloud]"
  shows "ray_update s ranges trimmed_ranges predicted_cloud particle range_min range_max acc i =
     (if passes_band_test range_min range_max
            (norm2f (vsub (predicted_cloud ! i) (lidar_loc (loc particle) (angle particle))))
            (ranges ! i)
      then acc + ray_contribution s (ranges ! (ratio * i))
                   (norm2f (vsub (predicted_cloud ! i) (lidar_loc (loc particle) (angle particle))))
      else acc)"
  using assms(1)
  by (simp add: ray_update_def passes_band_test_def ray_contribution_def Let_def assms(3)
        std_clamp[OF assms(2)])

text \<open>
  What \<open>Update\<close> adds as it is coded, on an initialised filter and a scan of at least
  ten ranges (with \<open>- d_short \<le> d_long\<close>, as the constructor sets them): the band test
  is applied to \<^verbatim>\<open>ranges[i]\<close>, and the contribution of a kept ray is computed from
  \<^verbatim>\<open>ranges[stride * i]\<close>.
\<close>

lemma Update_increment_as_coded:
  assumes "odom_initialized s" "10 \<le> length ranges" "\<not> d_long s < - d_short s"
  shows "Update E ranges range_min range_max angle_min angle_max s particle =
     Inr (particle\<lparr>log_weight := log_weight particle +
       foldl (+) 0
         (map (\<lambda>i. ray_contribution s
                      (ranges ! (length ranges div (length ranges div 10) * i))
                      (predicted_range_of E s particle (length ranges) range_min range_max
                         angle_min angle_max i))
              (filter (\<lambda>i. passes_band_test range_min range_max
                              (predicted_range_of E s particle (length ranges) range_min range_max
                                 angle_min angle_max i)
                              (ranges ! i))
                 [0 ..< length ranges div 10]))\<rparr>)"
proof -
  let ?cloud = "GetPredictedPointCloud E (vector_map s) (loc particle) (angle particle)
                  (length ranges) range_min range_max angle_min angle_max"
  have len: "length ?cloud = length ranges div 10" by (simp add: GetPredictedPointCloud_def)
  have pos: "length ?cloud \<noteq> 0" using assms(2) len by simp
  let ?ratio = "length ranges div length ?cloud"
  let ?trimmed = "map (\<lambda>i. ranges ! (?ratio * i)) [0 ..< length ?cloud]"
  have fold: "foldl (ray_update s ranges ?trimmed ?cloud particle range_min range_max) 0
                [0 ..< length ?cloud]
      = foldl (+) 0
         (map (\<lambda>i. ray_contribution s (ranges ! (?ratio * i))
                      (norm2f (vsub (?cloud ! i) (lidar_loc (loc particle) (angle particle)))))
              (filter (\<lambda>i. passes_band_test range_min range_max
                       (norm2f (vsub (?cloud ! i) (lidar_loc (loc particle) (angle particle))))
                       (ranges ! i))
                 [0 ..< length ?cloud]))"
    by (rule foldl_filtered_sum) (simp add: ray_update_eq[OF _ assms(3)])
  show ?thesis
    using assms(1) pos fold
    unfolding Update_def Let_def predicted_range_of_def len
    by simp
qed

section \<open>Evaluating the scenarios\<close>

lemmas cfloat_eval =
  zero_cfloat_def minus_cfloat_def less_eq_cfloat_def feq_def vadd_def vsub_def vscale_def
  vmul_def vdiv_def Sq_def std_min_def std_max_def clamp_def cross2f_def lidar_loc_def

lemma norm2f_x_axis: "norm2f (Fin a, Fin 0) = Fin \<bar>a\<bar>"
  by (simp add: norm2f_def)

lemma add_Fin_0: "x + Fin 0 = x"
  by (cases x) simp_all

section \<open>Which intersection the predicted scan takes\<close>

lemma far_hit:
  "Intersection geometric (wall_at 10.1) \<lparr>p0 = (Fin 0.3, Fin 0), p1 = (Fin 10.2, Fin 0)\<rparr>
     = Some (Fin 10.1, Fin 0)"
  by (simp add: geometric_def quiet_def line_Intersection_def wall_at_def cfloat_eval Let_def)

lemma far_hit_dist: "norm2f (vsub (Fin 10.1, Fin 0) (lidar_loc (0, 0) 0)) = Fin 9.9"
  by (simp add: cfloat_eval norm2f_x_axis)

lemma far_scan:
  "GetPredictedPointCloud geometric [wall_at 10.1] (0, 0) 0 10 (Fin 0.1) (Fin 10) 0 0
     = [(Fin 10.2, Fin 0)]"
  by (simp add: GetPredictedPointCloud_def scan_point_def ray_angle_of_def Let_def
        far_hit[simplified] cfloat_eval norm2f_x_axis)

lemma back_hits:
  "Intersection geometric (wall_at 0.1) \<lparr>p0 = (Fin 0.15, Fin 0), p1 = (Fin (- 9.8), Fin 0)\<rparr>
     = Some (Fin 0.1, Fin 0)"
  "Intersection geometric (wall_at (- 0.05)) \<lparr>p0 = (Fin 0.15, Fin 0), p1 = (Fin (- 9.8), Fin 0)\<rparr>
     = Some (Fin (- 0.05), Fin 0)"
  by (simp_all add: geometric_def quiet_def line_Intersection_def wall_at_def cfloat_eval Let_def)

lemma back_scan:
  "GetPredictedPointCloud geometric [wall_at 0.1, wall_at (- 0.05)] (0, 0) 0 10
     (Fin 0.05) (Fin 10) (Fin pi) (Fin pi) = [(Fin (- 0.05), Fin 0)]"
  by (simp add: GetPredictedPointCloud_def scan_point_def ray_angle_of_def Let_def
        back_hits[simplified] cfloat_eval norm2f_x_axis)

text \<open>
  C4. Two scans of one ray from a particle at the origin that heads along the x axis
  (laser origin at 0.2 m). First, a wall 9.9 m ahead of the laser origin, inside the
  range limits (0.1 m, 10 m): the ray meets it, but the predicted point is the far end
  of the ray, 10 m from the laser origin. Second, a ray cast backwards with range
  limits (0.05 m, 10 m) that meets one wall 0.1 m and another 0.25 m from the laser
  origin: the predicted point is on the farther wall.
\<close>

theorem predicted_point_is_not_the_nearest_hit:
  "Intersection geometric (wall_at 10.1) \<lparr>p0 = (Fin 0.3, Fin 0), p1 = (Fin 10.2, Fin 0)\<rparr>
     = Some (Fin 10.1, Fin 0)
   \<and> norm2f (vsub (Fin 10.1, Fin 0) (lidar_loc (0, 0) 0)) = Fin 9.9
   \<and> GetPredictedPointCloud geometric [wall_at 10.1] (0, 0) 0 10 (Fin 0.1) (Fin 10) 0 0
       = [(Fin 10.2, Fin 0)]
   \<and> norm2f (vsub (Fin 10.2, Fin 0) (lidar_loc (0, 0) 0)) = Fin 10
   \<and> Intersection geometric (wall_at 0.1) \<lparr>p0 = (Fin 0.15, Fin 0), p1 = (Fin (- 9.8), Fin 0)\<rparr>
       = Some (Fin 0.1, Fin 0)
   \<and> norm2f (vsub (Fin 0.1, Fin 0) (lidar_loc (0, 0) 0)) = Fin 0.1
   \<and> GetPredictedPointCloud geometric [wall_at 0.1, wall_at (- 0.05)] (0, 0) 0 10
         (Fin 0.05) (Fin 10) (Fin pi) (Fin pi)
       = [(Fin (- 0.05), Fin 0)]
   \<and> norm2f (vsub (Fin (- 0.05), Fin 0) (lidar_loc (0, 0) 0)) = Fin 0.25"
  by (intro conjI far_hit far_hit_dist far_scan back_hits(1) back_scan)
     (simp_all add: cfloat_eval norm2f_x_axis)

section \<open>Which range the band test reads\<close>

lemma near_hit:
  "Intersection geometric (wall_at 5.2) \<lparr>p0 = (Fin 1.2, Fin 0), p1 = (Fin 10.2, Fin 0)\<rparr>
     = Some (Fin 5.2, Fin 0)"
  by (simp add: geometric_def quiet_def line_Intersection_def wall_at_def cfloat_eval Let_def)

lemma scan20_facts:
  "length scan20 = 20" "scan20 ! 0 = Fin 5.5" "scan20 ! Suc 0 = Fin 100" "scan20 ! 10 = Fin 5.5"
  by (simp_all add: scan20_def nth_Cons' nth_append)

lemma upt_0_2: "[0 ..< 2] = [0, Suc 0]"
  by (simp add: upt_rec)

lemma stride20: "(20::nat) div Suc (Suc 0) = 10"
  by (simp add: numeral_2_eq_2[symmetric])

lemma near_cloud:
  "GetPredictedPointCloud geometric (vector_map walled_filter) (loc origin_particle)
     (angle origin_particle) (length scan20) (Fin 1) (Fin 10) 0 0
     = [(Fin 5.2, Fin 0), (Fin 5.2, Fin 0)]"
  by (simp add: GetPredictedPointCloud_def scan_point_def ray_angle_of_def Let_def
        walled_filter_def origin_particle_def scan20_facts upt_0_2
        near_hit[simplified] cfloat_eval norm2f_x_axis)

lemma code_result:
  "Update geometric scan20 (Fin 1) (Fin 10) 0 0 walled_filter origin_particle
     = Inr (origin_particle\<lparr>log_weight := Fin (- 1 / 4)\<rparr>)"
  unfolding Update_def near_cloud
  by (simp add: ray_update_def Let_def walled_filter_def ParticleFilter_ctor_def
        origin_particle_def scan20_facts stride20 cfloat_eval norm2f_x_axis)

lemma lockstep_result:
  "Update_lockstep geometric scan20 (Fin 1) (Fin 10) 0 0 walled_filter origin_particle
     = Inr (origin_particle\<lparr>log_weight := Fin (- 1 / 2)\<rparr>)"
  unfolding Update_lockstep_def near_cloud
  by (simp add: ray_update_lockstep_def ray_contribution_def Let_def walled_filter_def
        ParticleFilter_ctor_def origin_particle_def scan20_facts stride20 cfloat_eval
        norm2f_x_axis)

text \<open>
  C3. A scan of twenty ranges gives two rays with stride 10. For ray 1 the band test
  of \<open>Update\<close> reads \<^verbatim>\<open>ranges[1]\<close> (100 m, out of band) and drops the ray, although
  the measurement in lockstep with it, \<^verbatim>\<open>ranges[10]\<close> (5.5 m), is in the band: the
  log-weight becomes \<open>- 1/4\<close>. With the band test on the lockstep measurement both
  rays count and it becomes \<open>- 1/2\<close>.
\<close>

theorem band_test_reads_the_unsubsampled_range:
  "scan20 ! 1 = Fin 100
   \<and> scan20 ! (length scan20 div (length scan20 div 10) * 1) = Fin 5.5
   \<and> Update geometric scan20 (Fin 1) (Fin 10) 0 0 walled_filter origin_particle
       = Inr (origin_particle\<lparr>log_weight := Fin (- 1 / 4)\<rparr>)
   \<and> Update_lockstep geometric scan20 (Fin 1) (Fin 10) 0 0 walled_filter origin_particle
       = Inr (origin_particle\<lparr>log_weight := Fin (- 1 / 2)\<rparr>)"
  by (intro conjI code_result lockstep_result) (simp_all add: scan20_facts)

lemma predicted20:
  assumes "i < 2"
  shows "predicted_range_of geometric walled_filter origin_particle (length scan20)
           (Fin 1) (Fin 10) 0 0 i = Fin 5"
proof -
  from assms have "i = 0 \<or> i = Suc 0" by auto
  then show ?thesis
    unfolding predicted_range_of_def near_cloud
    by (auto simp: origin_particle_def cfloat_eval norm2f_x_axis)
qed

lemma walled_facts:
  "d_short walled_filter = Fin (1 / 2)" "d_long walled_filter = Fin (1 / 2)"
  "var_obs walled_filter = Fin 1"
  by (simp_all add: walled_filter_def ParticleFilter_ctor_def)

lemma claimed20:
  "claimed_increment geometric scan20 (Fin 1) (Fin 10) 0 0 walled_filter origin_particle
     = Fin (- 1 / 2)"
proof -
  have M: "length scan20 div 10 = 2" by (simp add: scan20_facts)
  have st: "length scan20 div 2 = 10" by (simp add: scan20_facts)
  have p0: "predicted_range_of geometric walled_filter origin_particle (length scan20)
              (Fin 1) (Fin 10) 0 0 0 = Fin 5"
    by (rule predicted20) simp
  have p1: "predicted_range_of geometric walled_filter origin_particle (length scan20)
              (Fin 1) (Fin 10) 0 0 (Suc 0) = Fin 5"
    by (rule predicted20) simp
  show ?thesis
    unfolding claimed_increment_def Let_def M st upt_0_2
    by (simp add: p0 p1 p0[unfolded zero_cfloat_def] p1[unfolded zero_cfloat_def]
          scan20_facts(2,4) passes_band_test_def ray_contribution_def walled_facts
          cfloat_eval)
qed

text \<open>
  C7. The same call of \<open>Update\<close>. Ray 1, with the measured range \<^verbatim>\<open>ranges[10]\<close>
  and the predicted range 5, passes the band test, and the sum of the contributions
  over the rays that pass is \<open>- 1/2\<close>. \<open>Update\<close> adds \<open>- 1/4\<close> to the log-weight 0:
  the contribution of ray 1 is missing.
\<close>

theorem Update_omits_a_ray_that_passes_the_band_test:
  "passes_band_test (Fin 1) (Fin 10)
     (predicted_range_of geometric walled_filter origin_particle (length scan20)
        (Fin 1) (Fin 10) 0 0 1)
     (scan20 ! (length scan20 div (length scan20 div 10) * 1))
   \<and> claimed_increment geometric scan20 (Fin 1) (Fin 10) 0 0 walled_filter origin_particle
       = Fin (- 1 / 2)
   \<and> log_weight origin_particle = Fin 0
   \<and> Update geometric scan20 (Fin 1) (Fin 10) 0 0 walled_filter origin_particle
       = Inr (origin_particle\<lparr>log_weight := Fin (- 1 / 4)\<rparr>)"
proof -
  have p1: "predicted_range_of geometric walled_filter origin_particle (length scan20)
              (Fin 1) (Fin 10) 0 0 1 = Fin 5"
    by (rule predicted20) simp
  have m1: "scan20 ! (length scan20 div (length scan20 div 10) * 1) = Fin (11 / 2)"
    by (simp add: scan20_facts)
  have "passes_band_test (Fin 1) (Fin 10)
     (predicted_range_of geometric walled_filter origin_particle (length scan20)
        (Fin 1) (Fin 10) 0 0 1)
     (scan20 ! (length scan20 div (length scan20 div 10) * 1))"
    unfolding p1 m1 by (simp add: passes_band_test_def)
  moreover have "log_weight origin_particle = Fin 0"
    by (simp add: origin_particle_def zero_cfloat_def)
  ultimately show ?thesis
    using claimed20 code_result by simp
qed

section \<open>When the sensor update resamples\<close>

lemma Resample_draws:
  assumes "particles s \<noteq> []" "odom_initialized s" "Resample E N s = Some (Inr s')"
  shows "rng s' = Suc (rng s)"
  using assms
  by (auto simp: Resample_def Let_def split: sum.splits prod.splits if_splits option.splits)

lemma ObserveLaser_counter:
  assumes "ObserveLaser E N ranges range_min range_max angle_min angle_max s = Some (Inr s')"
  shows "updates_since_last_resample s' =
           (if dist_since_last_update s > Fin 0.1 \<and> dist_since_last_update s < Fin 1.0
            then (if updates_since_last_resample s > 5 then 1
                  else updates_since_last_resample s + 1)
            else updates_since_last_resample s)"
  using assms
  by (auto simp: ObserveLaser_def Let_def and_then_def dist_since_last_update_def
           split: sum.splits prod.splits if_splits option.splits)

text \<open>
  The counter stays between 0 and 6, so the C++ \<^verbatim>\<open>int\<close> never wraps around.
\<close>

lemma ObserveLaser_counter_bounded:
  assumes "ObserveLaser E N ranges range_min range_max angle_min angle_max s = Some (Inr s')"
    and "0 \<le> updates_since_last_resample s" "updates_since_last_resample s \<le> 6"
  shows "0 \<le> updates_since_last_resample s' \<and> updates_since_last_resample s' \<le> 6"
  using ObserveLaser_counter[OF assms(1)] assms(2,3) by (simp split: if_splits)

lemma ObserveOdometry_counter:
  "updates_since_last_resample (ObserveOdometry E odom_loc odom_angle s) = 0
   \<or> updates_since_last_resample (ObserveOdometry E odom_loc odom_angle s)
       = updates_since_last_resample s"
  by (simp add: ObserveOdometry_def ResetOdomVariables_def Let_def split_beta)

lemma run_append:
  "run E N (es @ es') s = (case run E N es s of Some (Inr s') \<Rightarrow> run E N es' s' | r \<Rightarrow> r)"
proof (induction es arbitrary: s)
  case Nil
  then show ?case by simp
next
  case (Cons e es)
  then show ?case
    by (cases e) (simp_all split: option.splits sum.splits)
qed

lemma first_message:
  "ObserveOdometry quiet (0, 0) 0 one_particle_filter = cruising 0 0 0 (Fin 0)"
  by (simp add: ObserveOdometry_def ResetOdomVariables_def one_particle_filter_def
        ParticleFilter_ctor_def origin_particle_def cruising_def cfloat_eval)

lemma odometry_step:
  "ObserveOdometry quiet (Fin (x + 1 / 2), 0) 0 (cruising x c r m)
     = (cruising (x + 1 / 2) c (r + 3) m)\<lparr>last_update_loc := (Fin x, Fin 0)\<rparr>"
  by (simp add: ObserveOdometry_def UpdateParticleLocation_def rotate2f_def quiet_def
        cruising_def cfloat_eval norm2f_x_axis Let_def)

lemma blind_update:
  "Update quiet blind_scan (Fin 1) (Fin 10) 0 0 s p = Inr p"
  by (simp add: Update_def GetPredictedPointCloud_def blind_scan_def ray_update_def Let_def
        zero_cfloat_def add_Fin_0)

lemma blind_update_particles:
  "update_particles quiet blind_scan (Fin 1) (Fin 10) 0 0 s
     [\<lparr>loc = l, angle = a, log_weight = Fin 0\<rparr>] MInf
     = Inr ([\<lparr>loc = l, angle = a, log_weight = Fin 0\<rparr>], Fin 0)"
  by (simp add: blind_update)

lemma gate_open:
  "dist_since_last_update
     ((cruising (x + 1 / 2) c r m)\<lparr>last_update_loc := (Fin x, Fin 0),
                                     max_log_particle_weight := MInf\<rparr>) = Fin (1 / 2)"
  by (simp add: dist_since_last_update_def cruising_def cfloat_eval norm2f_x_axis)

lemma laser_step_plain:
  assumes "c \<le> 5"
  shows "ObserveLaser quiet 1 blind_scan (Fin 1) (Fin 10) 0 0
           ((cruising (x + 1 / 2) c r m)\<lparr>last_update_loc := (Fin x, Fin 0)\<rparr>)
         = Some (Inr (cruising (x + 1 / 2) (c + 1) r (Fin 0)))"
  using assms
  by (simp add: ObserveLaser_def Let_def gate_open and_then_def)
     (simp add: cruising_def blind_update and_then_def)

lemma resample_one:
  "Resample quiet 1 (cruising x c r (Fin 0)) = Some (Inr (cruising x c (Suc r) (Fin 0)))"
  by (simp add: Resample_def cruising_def normalize_loop.simps resample_loop.simps
        resample_while.simps quiet_def zero_cfloat_def minus_cfloat_def feq_def Let_def
        round32_zero round32_one round64_one)

lemma laser_step_resample:
  assumes "5 < c"
  shows "ObserveLaser quiet 1 blind_scan (Fin 1) (Fin 10) 0 0
           ((cruising (x + 1 / 2) c r m)\<lparr>last_update_loc := (Fin x, Fin 0)\<rparr>)
         = Some (Inr (cruising (x + 1 / 2) 1 (Suc r) (Fin 0)))"
proof -
  have s1: "(cruising (x + 1 / 2) c r m)
              \<lparr>last_update_loc := (Fin x, Fin 0), max_log_particle_weight := MInf,
               particles := [\<lparr>loc = (Fin (x + 1 / 2), Fin 0), angle = Fin 0, log_weight = Fin 0\<rparr>],
               max_log_particle_weight := Fin 0,
               last_update_loc := (Fin (x + 1 / 2), Fin 0)\<rparr>
            = cruising (x + 1 / 2) c r (Fin 0)"
    by (simp add: cruising_def)
  have up: "update_particles quiet blind_scan (Fin 1) (Fin 10) 0 0
              ((cruising (x + 1 / 2) c r m)\<lparr>last_update_loc := (Fin x, Fin 0),
                                              max_log_particle_weight := MInf\<rparr>)
              (particles (cruising (x + 1 / 2) c r m)) MInf
            = Inr ([\<lparr>loc = (Fin (x + 1 / 2), Fin 0), angle = Fin 0, log_weight = Fin 0\<rparr>], Fin 0)"
    by (simp add: cruising_def blind_update)
  have pl: "prev_odom_loc (cruising (x + 1 / 2) c r m) = (Fin (x + 1 / 2), Fin 0)"
           "updates_since_last_resample (cruising (x + 1 / 2) c r m) = c"
    by (simp_all add: cruising_def)
  show ?thesis
    using assms
    by (simp add: ObserveLaser_def Let_def gate_open up pl s1 resample_one and_then_def)
       (simp add: cruising_def resample_one[unfolded cruising_def, simplified])
qed

lemma round_plain:
  assumes "c \<le> 5"
  shows "run quiet 1 [Odometry (Fin (x + 1 / 2), 0) 0, Laser blind_scan (Fin 1) (Fin 10) 0 0]
           (cruising x c r m)
         = Some (Inr (cruising (x + 1 / 2) (c + 1) (r + 3) (Fin 0)))"
  by (simp add: odometry_step laser_step_plain[OF assms])

lemma round_resample:
  assumes "5 < c"
  shows "run quiet 1 [Odometry (Fin (x + 1 / 2), 0) 0, Laser blind_scan (Fin 1) (Fin 10) 0 0]
           (cruising x c r m)
         = Some (Inr (cruising (x + 1 / 2) 1 (r + 4) (Fin 0)))"
  by (simp add: odometry_step laser_step_resample[OF assms] add.commute)

lemma run_rounds:
  "k \<le> 6 \<Longrightarrow>
   run quiet 1 (rounds k) one_particle_filter
     = Some (Inr (cruising (real k / 2) (int k) (3 * k) (Fin 0)))"
proof (induction k)
  case 0
  then show ?case by (simp add: first_message)
next
  case (Suc k)
  then have IH: "run quiet 1 (rounds k) one_particle_filter
                   = Some (Inr (cruising (real k / 2) (int k) (3 * k) (Fin 0)))"
    and c: "int k \<le> 5"
    by simp_all
  have x: "real (Suc k) / 2 = real k / 2 + 1 / 2" by (simp add: field_simps)
  show ?case
    unfolding rounds.simps run_append IH x
    using round_plain[OF c, of "real k / 2" "3 * k" "Fin 0"]
    by (simp add: algebra_simps)
qed

text \<open>
  C2. A filter with one particle receives a first odometry message, which sets the
  counter of updates to zero, and then rounds of an odometry message half a metre on
  and a scan; every scan passes the motion gate. After five rounds the counter is 5
  and the 15 draws made are the three Gaussian draws of each odometry message: the
  fifth update has not resampled, nor has the sixth. The uniform draw of
  \<open>Resample\<close> comes in the seventh round, after which the counter is 1.
\<close>

theorem first_resampling_is_on_the_seventh_update:
  "run quiet 1 (rounds 5) one_particle_filter = Some (Inr (cruising (5 / 2) 5 15 (Fin 0)))
   \<and> run quiet 1 (rounds 6) one_particle_filter = Some (Inr (cruising 3 6 18 (Fin 0)))
   \<and> run quiet 1 (rounds 7) one_particle_filter = Some (Inr (cruising (7 / 2) 1 22 (Fin 0)))"
proof -
  have r5: "run quiet 1 (rounds 5) one_particle_filter = Some (Inr (cruising (5 / 2) 5 15 (Fin 0)))"
    using run_rounds[of 5] by simp
  have r6: "run quiet 1 (rounds 6) one_particle_filter = Some (Inr (cruising 3 6 18 (Fin 0)))"
    using run_rounds[of 6] by simp
  have s7: "rounds 7 = rounds 6 @ [Odometry (Fin (3 + 1 / 2), 0) 0, Laser blind_scan (Fin 1) (Fin 10) 0 0]"
  proof -
    have "(7::nat) = Suc 6" by simp
    then show ?thesis by (simp only: rounds.simps) simp
  qed
  have r7: "run quiet 1 (rounds 7) one_particle_filter = Some (Inr (cruising (7 / 2) 1 22 (Fin 0)))"
    unfolding s7 run_append r6
    using round_resample[of 6 3 18 "Fin 0"] by simp
  show ?thesis using r5 r6 r7 by simp
qed

end
